theory Spec2Isabelle
  imports Main "HOL-Library.Word"
begin

section \<open>JavaScript strings\<close>

text \<open>
  A JavaScript string is a sequence of 16-bit code units; \<open>length\<close>, \<open>substring\<close>,
  \<open>trim\<close> and the regular expressions of the controller all work on code units.
  String literals of the source are ASCII and are written \<open>js ''...''\<close>.
\<close>

type_synonym jschar = "16 word"
type_synonym jsstring = "jschar list"

definition js :: "string \<Rightarrow> jsstring" where
  "js s = map of_char s"

definition backtick :: jschar where
  "backtick = 0x60"

definition newline :: jschar where
  "newline = 0x0A"

text \<open>
  The class \<open>[a-z]\<close> under the flag \<open>i\<close> (and without the flag \<open>u\<close>): the letters
  \<open>A\<close> to \<open>Z\<close> and \<open>a\<close> to \<open>z\<close>. Case folding without \<open>u\<close> never maps a code unit
  of 128 or more to an ASCII one.
\<close>

definition is_letter :: "jschar \<Rightarrow> bool" where
  "is_letter c = ((0x41 \<le> c \<and> c \<le> 0x5A) \<or> (0x61 \<le> c \<and> c \<le> 0x7A))"

text \<open>
  What \<open>String.prototype.trim\<close> removes: the WhiteSpace and LineTerminator code points
  of ECMAScript (TAB, LF, VT, FF, CR, SP, NBSP, U+1680, U+2000 to U+200A, U+2028, U+2029,
  U+202F, U+205F, U+3000 and U+FEFF).
\<close>

definition is_space :: "jschar \<Rightarrow> bool" where
  "is_space c =
     ((0x09 \<le> c \<and> c \<le> 0x0D) \<or> c = 0x20 \<or> c = 0xA0 \<or> c = 0x1680
      \<or> (0x2000 \<le> c \<and> c \<le> 0x200A) \<or> c = 0x2028 \<or> c = 0x2029
      \<or> c = 0x202F \<or> c = 0x205F \<or> c = 0x3000 \<or> c = 0xFEFF)"

definition trim :: "jsstring \<Rightarrow> jsstring" where
  "trim s = rev (dropWhile is_space (rev (dropWhile is_space s)))"

section \<open>Output sanitization (createUserProject, lines 109 to 113)\<close>

text \<open>
  \<open>skip_newline\<close> is the optional \<open>\n?\<close> at the end of the first pattern.
\<close>

definition skip_newline :: "jsstring \<Rightarrow> jsstring" where
  "skip_newline s = (case s of [] \<Rightarrow> [] | c # cs \<Rightarrow> if c = newline then cs else c # cs)"

text \<open>
  \<open>.replace(/```[a-z]*\n?/gi, "")\<close>: the string is scanned from the left; at the first
  position where three backticks stand, they, the longest run of letters after them and one
  newline (when present) are removed, and the scan goes on behind the match. The two
  quantifiers are greedy and their classes are disjoint from each other, so no backtracking
  changes the match.
\<close>

function replace_fence_open :: "jsstring \<Rightarrow> jsstring" where
  "replace_fence_open (a # b # c # rest) =
     (if a = backtick \<and> b = backtick \<and> c = backtick
      then replace_fence_open (skip_newline (dropWhile is_letter rest))
      else a # replace_fence_open (b # c # rest))"
| "replace_fence_open [] = []"
| "replace_fence_open [a] = [a]"
| "replace_fence_open [a, b] = [a, b]"
  by pat_completeness auto

lemma length_skip_newline: "length (skip_newline s) \<le> length s"
  by (simp add: skip_newline_def split: list.split)

lemma length_skip_letters: "length (skip_newline (dropWhile is_letter s)) \<le> length s"
  by (rule order_trans [OF length_skip_newline length_dropWhile_le])

termination replace_fence_open
proof (relation "measure length")
  show "wf (measure length)" by simp
next
  fix a b c :: jschar and rest :: jsstring
  have "length (skip_newline (dropWhile is_letter rest)) \<le> length rest"
    by (rule length_skip_letters)
  then show "(skip_newline (dropWhile is_letter rest), a # b # c # rest) \<in> measure length"
    by simp
next
  fix a b c :: jschar and rest :: jsstring
  show "(b # c # rest, a # b # c # rest) \<in> measure length" by simp
qed

text \<open>
  \<open>.replace(/```$/g, "")\<close>: without the flag \<open>m\<close>, \<open>$\<close> is the end of the input, so the
  only possible match is the last three code units.
\<close>

definition replace_fence_end :: "jsstring \<Rightarrow> jsstring" where
  "replace_fence_end s =
     (if 3 \<le> length s \<and> drop (length s - 3) s = [backtick, backtick, backtick]
      then take (length s - 3) s else s)"

text \<open>The chain of line 110 to 113 that computes \<open>cleaned\<close> from \<open>raw\<close>.\<close>

definition cleaned :: "jsstring \<Rightarrow> jsstring" where
  "cleaned raw = trim (replace_fence_end (replace_fence_open raw))"

text \<open>Markup that holds three backticks in a row somewhere.\<close>

fun contains_fence :: "jsstring \<Rightarrow> bool" where
  "contains_fence (a # b # c # rest) =
     ((a = backtick \<and> b = backtick \<and> c = backtick) \<or> contains_fence (b # c # rest))"
| "contains_fence [] = False"
| "contains_fence [a] = False"
| "contains_fence [a, b] = False"

text \<open>Clean markup: no fence, and neither the first nor the last code unit is white space.\<close>

definition clean_markup :: "jsstring \<Rightarrow> bool" where
  "clean_markup s =
     (\<not> contains_fence s \<and> (s = [] \<or> (\<not> is_space (hd s) \<and> \<not> is_space (last s))))"

section \<open>Persisted state, console and AI service\<close>

text \<open>
  The tables the controller reads and writes through Prisma. Identifiers of users are the
  strings the authentication middleware supplies. A project's and a version's identifier is
  its position in its table: the database generates a fresh identifier for every created
  row and never reuses one. Rows of a table stand in order of creation, which is the
  ascending order of their timestamps. Credits are integers without a bound.
\<close>

type_synonym user_id = jsstring
type_synonym project_id = nat
type_synonym version_id = nat

record user =
  credits :: int
  totalCreation :: int

text \<open>
  Modelled from the spec: the Prisma schema is not among the sources; a new project starts
  with \<open>current_code\<close> and \<open>current_version_index\<close> unset and \<open>isPublished\<close> false.
\<close>

record project =
  name :: jsstring
  initial_prompt :: jsstring
  userId :: user_id
  current_code :: "jsstring option"
  current_version_index :: "version_id option"
  isPublished :: bool

datatype role = User | Assistant

record conversation_entry =
  role :: role
  content :: jsstring
  c_projectId :: project_id

record version =
  code :: jsstring
  description :: jsstring
  v_projectId :: project_id

text \<open>
  The awaited Prisma calls of the controller, one name per call site:
  \<^item> \<open>Credits_find\<close>: line 14 (getUserCredits);
  \<^item> \<open>Create_find\<close>, \<open>Create_project\<close>, \<open>Create_count\<close>, \<open>Create_prompt_entry\<close>,
    \<open>Create_debit\<close>: lines 36, 44, 53, 58 and 63 (createUserProject, before the response);
  \<^item> \<open>Bg_enhanced_entry\<close>, \<open>Bg_start_entry\<close>, \<open>Bg_failure_entry\<close>, \<open>Bg_empty_refund\<close>,
    \<open>Bg_version\<close>, \<open>Bg_project_update\<close>, \<open>Bg_success_entry\<close>, \<open>Bg_catch_refund\<close>:
    lines 89, 93, 116, 121, 129, 134, 139 and 146 (the background function);
  \<^item> \<open>Project_find\<close>: line 171 (getUserProject).
\<close>

datatype db_op =
    Credits_find
  | Create_find | Create_project | Create_count | Create_prompt_entry | Create_debit
  | Bg_enhanced_entry | Bg_start_entry | Bg_failure_entry | Bg_empty_refund
  | Bg_version | Bg_project_update | Bg_success_entry | Bg_catch_refund
  | Project_find

text \<open>
  What can be thrown: a Prisma call that rejects, an update of a row that does not exist,
  a rejected call of the completion service, and the \<open>TypeError\<close> of reading
  \<open>choices[0].message\<close> when the reply has no choice.
\<close>

datatype error = DbError db_op | RecordNotFound | ApiError | TypeError

datatype log_line = Log_error error | Log_background_failed error

datatype ai_request = Enhance jsstring | Generate jsstring

text \<open>
  A reply of the completion service: the call rejects, or it resolves to the list of
  choices, each with the \<open>content\<close> of its message (\<open>None\<close> for \<open>null\<close>).
\<close>

datatype ai_reply = Rejected | Choices "jsstring option list"

text \<open>
  Everything the controller does not decide: which Prisma call rejects, and what the
  completion service answers to the enhancement request (a function of the user's prompt)
  and to the generation request (a function of the enhanced prompt).
\<close>

record env =
  db_fails :: "db_op \<Rightarrow> bool"
  enhance_reply :: "jsstring \<Rightarrow> ai_reply"
  generate_reply :: "jsstring \<Rightarrow> ai_reply"

record world =
  users :: "user_id \<rightharpoonup> user"
  projects :: "project list"
  conversation :: "conversation_entry list"
  versions :: "version list"
  console :: "log_line list"
  ai_requests :: "ai_request list"

section \<open>Awaited effects\<close>

text \<open>
  An asynchronous computation takes the world and returns the world it leaves, with the
  value it resolves to (\<open>Inr\<close>) or the error it rejects with (\<open>Inl\<close>). \<open>await m k\<close> is
  \<open>const x = await m; k x\<close>: when \<open>m\<close> rejects, the rest is skipped and what was written
  before stays written.
\<close>

type_synonym 'a io = "world \<Rightarrow> (error + 'a) \<times> world"

definition resolve :: "'a \<Rightarrow> 'a io" where
  "resolve x w = (Inr x, w)"

definition reject :: "error \<Rightarrow> 'a io" where
  "reject e w = (Inl e, w)"

definition await :: "'a io \<Rightarrow> ('a \<Rightarrow> 'b io) \<Rightarrow> 'b io" where
  "await m k w = (case m w of (Inl e, w') \<Rightarrow> (Inl e, w') | (Inr x, w') \<Rightarrow> k x w')"

text \<open>A Prisma call that rejects writes nothing.\<close>

definition user_findUnique :: "env \<Rightarrow> db_op \<Rightarrow> user_id \<Rightarrow> user option io" where
  "user_findUnique env op uid w =
     (if db_fails env op then (Inl (DbError op), w) else (Inr (users w uid), w))"

definition user_update :: "env \<Rightarrow> db_op \<Rightarrow> user_id \<Rightarrow> (user \<Rightarrow> user) \<Rightarrow> unit io" where
  "user_update env op uid f w =
     (if db_fails env op then (Inl (DbError op), w)
      else case users w uid of
             None \<Rightarrow> (Inl RecordNotFound, w)
           | Some u \<Rightarrow> (Inr (), w\<lparr>users := (users w)(uid \<mapsto> f u)\<rparr>))"

definition websiteProject_create :: "env \<Rightarrow> db_op \<Rightarrow> project \<Rightarrow> project_id io" where
  "websiteProject_create env op p w =
     (if db_fails env op then (Inl (DbError op), w)
      else (Inr (length (projects w)), w\<lparr>projects := projects w @ [p]\<rparr>))"

definition websiteProject_update ::
  "env \<Rightarrow> db_op \<Rightarrow> project_id \<Rightarrow> (project \<Rightarrow> project) \<Rightarrow> unit io" where
  "websiteProject_update env op pid f w =
     (if db_fails env op then (Inl (DbError op), w)
      else if pid < length (projects w)
      then (Inr (), w\<lparr>projects := (projects w)[pid := f (projects w ! pid)]\<rparr>)
      else (Inl RecordNotFound, w))"

definition conversation_create :: "env \<Rightarrow> db_op \<Rightarrow> conversation_entry \<Rightarrow> unit io" where
  "conversation_create env op e w =
     (if db_fails env op then (Inl (DbError op), w)
      else (Inr (), w\<lparr>conversation := conversation w @ [e]\<rparr>))"

definition version_create :: "env \<Rightarrow> db_op \<Rightarrow> version \<Rightarrow> version_id io" where
  "version_create env op v w =
     (if db_fails env op then (Inl (DbError op), w)
      else (Inr (length (versions w)), w\<lparr>versions := versions w @ [v]\<rparr>))"

definition console_log :: "log_line \<Rightarrow> world \<Rightarrow> world" where
  "console_log l w = w\<lparr>console := console w @ [l]\<rparr>"

text \<open>
  \<open>openai.chat.completions.create\<close>: the request is sent (and recorded), the reply is the
  environment's.
\<close>

definition reply_to :: "env \<Rightarrow> ai_request \<Rightarrow> ai_reply" where
  "reply_to env r = (case r of Enhance p \<Rightarrow> enhance_reply env p | Generate p \<Rightarrow> generate_reply env p)"

definition chat_completions_create :: "env \<Rightarrow> ai_request \<Rightarrow> jsstring option list io" where
  "chat_completions_create env r w =
     (case reply_to env r of
        Rejected \<Rightarrow> (Inl ApiError, w\<lparr>ai_requests := ai_requests w @ [r]\<rparr>)
      | Choices cs \<Rightarrow> (Inr cs, w\<lparr>ai_requests := ai_requests w @ [r]\<rparr>))"

text \<open>\<open>response.choices[0].message.content\<close>.\<close>

definition first_content :: "jsstring option list \<Rightarrow> jsstring option io" where
  "first_content cs = (case cs of [] \<Rightarrow> reject TypeError | c # _ \<Rightarrow> resolve c)"

section \<open>Responses\<close>

text \<open>
  The result of \<open>findUnique\<close> with \<open>include\<close>: the project, its conversation and its
  versions, both in ascending order of timestamp.
\<close>

record project_view =
  pv_id :: project_id
  pv_project :: project
  pv_conversation :: "conversation_entry list"
  pv_versions :: "version list"

datatype body =
    Message jsstring
  | Error_message error
  | Credits_json int
  | ProjectId_json project_id
  | Project_json "project_view option"

datatype response = Response nat body

section \<open>getUserCredits\<close>

text \<open>
  \<open>req.userId\<close> is a string or \<open>undefined\<close>; \<open>!userId\<close> holds for \<open>undefined\<close> and for
  the empty string. Every controller ends with the same handler:
  \<open>catch (error) { console.log(...); return res.status(500).json({ message: error.message }) }\<close>.
\<close>

definition getUserCredits :: "env \<Rightarrow> user_id option \<Rightarrow> world \<Rightarrow> response \<times> world" where
  "getUserCredits env req_userId w =
     (case req_userId of
        None \<Rightarrow> (Response 401 (Message (js ''Unauthorized user'')), w)
      | Some uid \<Rightarrow>
          if uid = [] then (Response 401 (Message (js ''Unauthorized user'')), w)
          else (case user_findUnique env Credits_find uid w of
                  (Inr found, w') \<Rightarrow>
                    (Response 200 (Credits_json (case found of None \<Rightarrow> 0 | Some u \<Rightarrow> credits u)), w')
                | (Inl e, w') \<Rightarrow>
                    (Response 500 (Error_message e), console_log (Log_error e) w')))"

section \<open>getUserProject\<close>

text \<open>The conversation entries and the versions of a project, oldest first.\<close>

definition entries_of :: "project_id \<Rightarrow> world \<Rightarrow> conversation_entry list" where
  "entries_of pid w = filter (\<lambda>e. c_projectId e = pid) (conversation w)"

definition versions_of :: "project_id \<Rightarrow> world \<Rightarrow> version list" where
  "versions_of pid w = filter (\<lambda>v. v_projectId v = pid) (versions w)"

text \<open>
  \<open>findUnique({ where: { id: projectId, userId }, include: ... })\<close>: the project with this
  identifier when this user owns it, else \<open>null\<close>.
\<close>

definition websiteProject_findUnique ::
  "env \<Rightarrow> db_op \<Rightarrow> project_id \<Rightarrow> user_id \<Rightarrow> project_view option io" where
  "websiteProject_findUnique env op pid uid w =
     (if db_fails env op then (Inl (DbError op), w)
      else if pid < length (projects w) \<and> userId (projects w ! pid) = uid
      then (Inr (Some \<lparr>pv_id = pid, pv_project = projects w ! pid,
                        pv_conversation = entries_of pid w,
                        pv_versions = versions_of pid w\<rparr>), w)
      else (Inr None, w))"

definition getUserProject ::
  "env \<Rightarrow> user_id option \<Rightarrow> project_id \<Rightarrow> world \<Rightarrow> response \<times> world" where
  "getUserProject env req_userId pid w =
     (case req_userId of
        None \<Rightarrow> (Response 401 (Message (js ''Unauthorized user'')), w)
      | Some uid \<Rightarrow>
          if uid = [] then (Response 401 (Message (js ''Unauthorized user'')), w)
          else (case websiteProject_findUnique env Project_find pid uid w of
                  (Inr found, w') \<Rightarrow> (Response 200 (Project_json found), w')
                | (Inl e, w') \<Rightarrow>
                    (Response 500 (Error_message e), console_log (Log_error e) w')))"

section \<open>createUserProject\<close>

text \<open>What the background function closes over: \<open>userId\<close>, \<open>initial_prompt\<close>, \<open>project.id\<close>.\<close>

record job =
  j_userId :: user_id
  j_initial_prompt :: jsstring
  j_projectId :: project_id

definition project_name :: "jsstring \<Rightarrow> jsstring" where
  "project_name p = (if 50 < length p then take 47 p @ js ''...'' else p)"

text \<open>
  Lines 31 to 69, inside \<open>try\<close>: the checks, the four writes and the response. It resolves
  to the response sent and, when the background function is started, to what it closes over.
\<close>

definition createUserProject_try ::
  "env \<Rightarrow> user_id option \<Rightarrow> jsstring option \<Rightarrow> (response \<times> job option) io" where
  "createUserProject_try env req_userId body_initial_prompt =
     (case req_userId of
        None \<Rightarrow> resolve (Response 401 (Message (js ''Unauthorized user'')), None)
      | Some uid \<Rightarrow>
     if uid = [] then resolve (Response 401 (Message (js ''Unauthorized user'')), None)
     else
     (case body_initial_prompt of
        None \<Rightarrow> resolve (Response 400 (Message (js ''initial_prompt is required'')), None)
      | Some prompt \<Rightarrow>
     if trim prompt = []
     then resolve (Response 400 (Message (js ''initial_prompt is required'')), None)
     else
     await (user_findUnique env Create_find uid) (\<lambda>found.
     case found of
       None \<Rightarrow> resolve (Response 401 (Message (js ''User not found'')), None)
     | Some u \<Rightarrow>
     if credits u < 5
     then resolve (Response 403 (Message (js ''Add credits to create more projects'')), None)
     else
     await (websiteProject_create env Create_project
              \<lparr>name = project_name prompt, initial_prompt = prompt, userId = uid,
               current_code = None, current_version_index = None, isPublished = False\<rparr>) (\<lambda>pid.
     await (user_update env Create_count uid
              (\<lambda>u. u\<lparr>totalCreation := totalCreation u + 1\<rparr>)) (\<lambda>_.
     await (conversation_create env Create_prompt_entry
              \<lparr>role = User, content = prompt, c_projectId = pid\<rparr>) (\<lambda>_.
     await (user_update env Create_debit uid (\<lambda>u. u\<lparr>credits := credits u - 5\<rparr>)) (\<lambda>_.
     resolve (Response 200 (ProjectId_json pid),
              Some \<lparr>j_userId = uid, j_initial_prompt = prompt, j_projectId = pid\<rparr>))))))))"

definition createUserProject ::
  "env \<Rightarrow> user_id option \<Rightarrow> jsstring option \<Rightarrow> world \<Rightarrow> (response \<times> job option) \<times> world" where
  "createUserProject env req_userId body_initial_prompt w =
     (case createUserProject_try env req_userId body_initial_prompt w of
        (Inr sent, w') \<Rightarrow> (sent, w')
      | (Inl e, w') \<Rightarrow>
          ((Response 500 (Error_message e), None), console_log (Log_error e) w'))"

text \<open>
  Line 87: \<open>content?.trim() || initial_prompt\<close>, and line 109: \<open>content || ""\<close>.
\<close>

definition enhanced_prompt :: "jsstring \<Rightarrow> jsstring option \<Rightarrow> jsstring" where
  "enhanced_prompt prompt c =
     (case c of None \<Rightarrow> prompt | Some s \<Rightarrow> if trim s = [] then prompt else trim s)"

definition raw_content :: "jsstring option \<Rightarrow> jsstring" where
  "raw_content c = (case c of None \<Rightarrow> [] | Some s \<Rightarrow> s)"

definition enhanced_notice :: "jsstring \<Rightarrow> jsstring" where
  "enhanced_notice e = js ''I've enhanced your prompt to: \"'' @ e @ js ''\"''"

definition refund :: "user \<Rightarrow> user" where
  "refund u = u\<lparr>credits := credits u + 5\<rparr>"

text \<open>Lines 74 to 141: the body of \<open>try\<close> in the background function.\<close>

definition background_try :: "env \<Rightarrow> job \<Rightarrow> unit io" where
  "background_try env j =
     await (chat_completions_create env (Enhance (j_initial_prompt j))) (\<lambda>choices.
     await (first_content choices) (\<lambda>c.
     await (conversation_create env Bg_enhanced_entry
              \<lparr>role = Assistant,
               content = enhanced_notice (enhanced_prompt (j_initial_prompt j) c),
               c_projectId = j_projectId j\<rparr>) (\<lambda>_.
     await (conversation_create env Bg_start_entry
              \<lparr>role = Assistant, content = js ''now generating your website...'',
               c_projectId = j_projectId j\<rparr>) (\<lambda>_.
     await (chat_completions_create env
              (Generate (enhanced_prompt (j_initial_prompt j) c))) (\<lambda>choices'.
     await (first_content choices') (\<lambda>c'.
     if cleaned (raw_content c') = []
     then
       await (conversation_create env Bg_failure_entry
                \<lparr>role = Assistant,
                 content = js ''Unable to create the code. Please try again.'',
                 c_projectId = j_projectId j\<rparr>) (\<lambda>_.
       await (user_update env Bg_empty_refund (j_userId j) refund) (\<lambda>_.
       resolve ()))
     else
       await (version_create env Bg_version
                \<lparr>code = cleaned (raw_content c'), description = js ''Initial Version'',
                 v_projectId = j_projectId j\<rparr>) (\<lambda>vid.
       await (websiteProject_update env Bg_project_update (j_projectId j)
                (\<lambda>p. p\<lparr>current_code := Some (cleaned (raw_content c')),
                         current_version_index := Some vid\<rparr>)) (\<lambda>_.
       await (conversation_create env Bg_success_entry
                \<lparr>role = Assistant,
                 content = js ''I've created your website! You can now preview it and request changes.'',
                 c_projectId = j_projectId j\<rparr>) (\<lambda>_.
       resolve ())))))))))"

text \<open>
  Lines 72 to 151: the background function with its handler. The handler logs the error,
  tries the refund and, by \<open>.catch(() => {})\<close>, drops a rejection of that refund.
\<close>

definition background :: "env \<Rightarrow> job \<Rightarrow> unit io" where
  "background env j w =
     (case background_try env j w of
        (Inr u, w') \<Rightarrow> (Inr u, w')
      | (Inl e, w') \<Rightarrow>
          (case user_update env Bg_catch_refund (j_userId j) refund
                  (console_log (Log_background_failed e) w') of
             (Inr u, w'') \<Rightarrow> (Inr u, w'')
           | (Inl _, w'') \<Rightarrow> (Inr (), w'')))"

text \<open>
  A generation attempt from the request to the end of the background function, when no
  other request runs in between: the response and the world at the end.
\<close>

definition generation ::
  "env \<Rightarrow> user_id option \<Rightarrow> jsstring option \<Rightarrow> world \<Rightarrow> response \<times> world" where
  "generation env req_userId body_initial_prompt w =
     (case createUserProject env req_userId body_initial_prompt w of
        ((sent, None), w') \<Rightarrow> (sent, w')
      | ((sent, Some j), w') \<Rightarrow> (sent, snd (background env j w')))"

text \<open>
  The foreign keys of the store: every conversation entry and every version belongs to a
  project of the store.
\<close>

definition store_ok :: "world \<Rightarrow> bool" where
  "store_ok w =
     ((\<forall>e \<in> set (conversation w). c_projectId e < length (projects w))
      \<and> (\<forall>v \<in> set (versions w). v_projectId v < length (projects w)))"

definition balance :: "user_id \<Rightarrow> world \<Rightarrow> int option" where
  "balance uid w = map_option credits (users w uid)"

section \<open>Notions used in the proofs\<close>

text \<open>A string that begins with three backticks.\<close>

fun starts_fence :: "jsstring \<Rightarrow> bool" where
  "starts_fence (a # b # c # rest) = (a = backtick \<and> b = backtick \<and> c = backtick)"
| "starts_fence [] = False"
| "starts_fence [a] = False"
| "starts_fence [a, b] = False"

text \<open>
  \<open>ensures m w Q E\<close>: run from the world \<open>w\<close>, the computation \<open>m\<close> resolves to a value
  and a world that satisfy \<open>Q\<close>, or rejects with an error and a world that satisfy \<open>E\<close>.
\<close>

definition ensures :: "'a io \<Rightarrow> world \<Rightarrow> ('a \<Rightarrow> world \<Rightarrow> bool) \<Rightarrow> (error \<Rightarrow> world \<Rightarrow> bool) \<Rightarrow> bool" where
  "ensures m w Q E = (case m w of (Inr x, w') \<Rightarrow> Q x w' | (Inl e, w') \<Rightarrow> E e w')"

text \<open>The Prisma calls before the response do not reject; no Prisma call rejects.\<close>

definition sync_ok :: "env \<Rightarrow> bool" where
  "sync_ok env =
     (\<not> db_fails env Create_find \<and> \<not> db_fails env Create_project
      \<and> \<not> db_fails env Create_count \<and> \<not> db_fails env Create_prompt_entry
      \<and> \<not> db_fails env Create_debit)"

definition no_faults :: "env \<Rightarrow> bool" where
  "no_faults env = (\<forall>op. \<not> db_fails env op)"

text \<open>
  A generation request whose debit succeeds: the caller is authenticated, the prompt is not
  blank, the user \<open>u\<close> exists with 5 credits or more, and the five Prisma calls up to the
  debit do not reject.
\<close>

definition accepted :: "env \<Rightarrow> user_id \<Rightarrow> jsstring \<Rightarrow> world \<Rightarrow> user \<Rightarrow> bool" where
  "accepted env uid prompt w u =
     (uid \<noteq> [] \<and> trim prompt \<noteq> [] \<and> users w uid = Some u \<and> 5 \<le> credits u \<and> sync_ok env)"

text \<open>
  The world when the response of an accepted request is sent, and what its background
  function closes over.
\<close>

definition new_project :: "user_id \<Rightarrow> jsstring \<Rightarrow> project" where
  "new_project uid prompt =
     \<lparr>name = project_name prompt, initial_prompt = prompt, userId = uid,
      current_code = None, current_version_index = None, isPublished = False\<rparr>"

definition prompt_entry :: "jsstring \<Rightarrow> project_id \<Rightarrow> conversation_entry" where
  "prompt_entry prompt pid = \<lparr>role = User, content = prompt, c_projectId = pid\<rparr>"

definition responded :: "user_id \<Rightarrow> jsstring \<Rightarrow> user \<Rightarrow> world \<Rightarrow> world" where
  "responded uid prompt u w =
     w\<lparr>projects := projects w @ [new_project uid prompt],
       conversation := conversation w @ [prompt_entry prompt (length (projects w))],
       users := (users w)(uid \<mapsto> u\<lparr>totalCreation := totalCreation u + 1,
                                      credits := credits u - 5\<rparr>)\<rparr>"

definition job_of :: "user_id \<Rightarrow> jsstring \<Rightarrow> world \<Rightarrow> job" where
  "job_of uid prompt w =
     \<lparr>j_userId = uid, j_initial_prompt = prompt, j_projectId = length (projects w)\<rparr>"

text \<open>The world at the end of a generation attempt.\<close>

definition final :: "env \<Rightarrow> user_id \<Rightarrow> jsstring \<Rightarrow> world \<Rightarrow> world" where
  "final env uid prompt w = snd (generation env (Some uid) (Some prompt) w)"

text \<open>The rows the background function writes.\<close>

definition assistant_entry :: "jsstring \<Rightarrow> project_id \<Rightarrow> conversation_entry" where
  "assistant_entry text pid = \<lparr>role = Assistant, content = text, c_projectId = pid\<rparr>"

definition start_notice :: jsstring where
  "start_notice = js ''now generating your website...''"

definition failure_notice :: jsstring where
  "failure_notice = js ''Unable to create the code. Please try again.''"

definition success_notice :: jsstring where
  "success_notice = js ''I've created your website! You can now preview it and request changes.''"

definition initial_version :: "jsstring \<Rightarrow> project_id \<Rightarrow> version" where
  "initial_version c pid = \<lparr>code = c, description = js ''Initial Version'', v_projectId = pid\<rparr>"

section \<open>Example inputs\<close>

text \<open>
  A store with two users, Alice with 10 credits and Bob with 3, and one project of Alice
  with its first prompt and its version; Carol has no user record. An environment is given
  by the Prisma calls that reject and the two replies of the completion service.
\<close>

definition alice :: user_id where
  "alice = js ''alice''"

definition bob :: user_id where
  "bob = js ''bob''"

definition carol :: user_id where
  "carol = js ''carol''"

definition photographer :: jsstring where
  "photographer = js ''a portfolio site for a photographer''"

definition blog :: project where
  "blog = \<lparr>name = js ''a blog'', initial_prompt = js ''a blog'', userId = alice,
            current_code = Some (js ''<h1>blog</h1>''), current_version_index = Some 0,
            isPublished = False\<rparr>"

definition demo_world :: world where
  "demo_world =
     \<lparr>users = [alice \<mapsto> \<lparr>credits = 10, totalCreation = 1\<rparr>,
               bob \<mapsto> \<lparr>credits = 3, totalCreation = 0\<rparr>],
      projects = [blog],
      conversation = [\<lparr>role = User, content = js ''a blog'', c_projectId = 0\<rparr>],
      versions = [\<lparr>code = js ''<h1>blog</h1>'', description = js ''Initial Version'',
                   v_projectId = 0\<rparr>],
      console = [], ai_requests = []\<rparr>"

definition demo_env :: "db_op list \<Rightarrow> ai_reply \<Rightarrow> ai_reply \<Rightarrow> env" where
  "demo_env failing e g =
     \<lparr>db_fails = (\<lambda>op. op \<in> set failing), enhance_reply = (\<lambda>_. e),
      generate_reply = (\<lambda>_. g)\<rparr>"

section \<open>Sanitization: what it removes and what it leaves\<close>

lemma contains_fence_Cons:
  "contains_fence (a # s) = (starts_fence (a # s) \<or> contains_fence s)"
  by (cases s rule: starts_fence.cases) simp_all

lemma replace_fence_open_Cons:
  "\<not> starts_fence (a # s) \<Longrightarrow> replace_fence_open (a # s) = a # replace_fence_open s"
  by (cases s rule: starts_fence.cases) auto

lemma starts_fence_hd: "starts_fence (a # x) \<Longrightarrow> a = backtick"
  by (cases x rule: starts_fence.cases) simp_all

lemma starts_fence_ConsI: "starts_fence s \<Longrightarrow> starts_fence (backtick # s)"
  by (cases s rule: starts_fence.cases) simp_all

lemma starts_fence_replace:
  assumes "starts_fence (a # replace_fence_open s)"
  shows "starts_fence (a # s)"
proof -
  from assms have a: "a = backtick" by (rule starts_fence_hd)
  show ?thesis
  proof (cases "starts_fence s")
    case True
    with a show ?thesis by (simp add: starts_fence_ConsI)
  next
    case ns: False
    show ?thesis
    proof (cases s)
      case Nil
      with assms show ?thesis by simp
    next
      case (Cons b t)
      with ns have s: "replace_fence_open s = b # replace_fence_open t"
        by (simp add: replace_fence_open_Cons)
      show ?thesis
      proof (cases "starts_fence t")
        case True
        from assms s have "b = backtick"
          by (cases "replace_fence_open t" rule: starts_fence.cases) simp_all
        with True ns Cons show ?thesis by (simp add: starts_fence_ConsI)
      next
        case nt: False
        show ?thesis
        proof (cases t)
          case Nil
          with assms s show ?thesis by simp
        next
          case t: (Cons c u)
          with nt have "replace_fence_open t = c # replace_fence_open u"
            by (simp add: replace_fence_open_Cons)
          with assms s Cons t show ?thesis by simp
        qed
      qed
    qed
  qed
qed

lemma no_fence_after_replace: "\<not> contains_fence (replace_fence_open s)"
proof (induction s rule: replace_fence_open.induct)
  case (1 a b c rest)
  show ?case
  proof (cases "a = backtick \<and> b = backtick \<and> c = backtick")
    case True
    with 1 show ?thesis by simp
  next
    case False
    then have nf: "\<not> starts_fence (a # b # c # rest)"
      by simp
    then have eq: "replace_fence_open (a # b # c # rest) = a # replace_fence_open (b # c # rest)"
      by (rule replace_fence_open_Cons)
    from False 1 have ih: "\<not> contains_fence (replace_fence_open (b # c # rest))"
      by blast
    from nf starts_fence_replace
    have "\<not> starts_fence (a # replace_fence_open (b # c # rest))"
      by blast
    with ih show ?thesis
      unfolding eq by (simp only: contains_fence_Cons) simp
  qed
qed simp_all

lemma replace_fence_open_id: "\<not> contains_fence s \<Longrightarrow> replace_fence_open s = s"
proof (induction s)
  case Nil
  then show ?case by simp
next
  case (Cons a s)
  then show ?case
    by (simp add: contains_fence_Cons replace_fence_open_Cons)
qed

lemma contains_fence_append_left: "contains_fence s \<Longrightarrow> contains_fence (p @ s)"
  by (induction p) (simp_all add: contains_fence_Cons)

lemma starts_fence_append: "starts_fence s \<Longrightarrow> starts_fence (s @ q)"
  by (cases s rule: starts_fence.cases) auto

lemma contains_fence_append_right: "contains_fence s \<Longrightarrow> contains_fence (s @ q)"
proof (induction s)
  case Nil
  then show ?case by simp
next
  case (Cons a s)
  then show ?case
    using starts_fence_append [of "a # s" q] by (auto simp: contains_fence_Cons)
qed

lemma replace_fence_end_id:
  assumes "\<not> contains_fence s"
  shows "replace_fence_end s = s"
proof (rule ccontr)
  assume "replace_fence_end s \<noteq> s"
  then have "drop (length s - 3) s = [backtick, backtick, backtick]"
    by (simp add: replace_fence_end_def split: if_splits)
  then have "contains_fence (drop (length s - 3) s)" by simp
  then have "contains_fence (take (length s - 3) s @ drop (length s - 3) s)"
    by (rule contains_fence_append_left)
  with assms show False by simp
qed

lemma no_fence_dropWhile: "\<not> contains_fence s \<Longrightarrow> \<not> contains_fence (dropWhile P s)"
  using contains_fence_append_left [of "dropWhile P s" "takeWhile P s"] by auto

lemma rev_dropWhile_rev_prefix:
  "rev (dropWhile P (rev t)) @ rev (takeWhile P (rev t)) = t"
proof -
  have "rev (takeWhile P (rev t) @ dropWhile P (rev t)) = t" by simp
  then show ?thesis by (simp only: rev_append)
qed

lemma no_fence_trim: 
  assumes "\<not> contains_fence s" shows "\<not> contains_fence (trim s)"
proof
  assume "contains_fence (trim s)"
  then have "contains_fence (trim s @ rev (takeWhile is_space (rev (dropWhile is_space s))))"
    by (rule contains_fence_append_right)
  then have "contains_fence (dropWhile is_space s)"
    by (simp only: trim_def rev_dropWhile_rev_prefix)
  with assms no_fence_dropWhile show False by blast
qed

lemma trim_id:
  assumes "s = [] \<or> (\<not> is_space (hd s) \<and> \<not> is_space (last s))"
  shows "trim s = s"
proof (cases "s = []")
  case True
  then show ?thesis by (simp add: trim_def)
next
  case False
  with assms have h: "\<not> is_space (hd s)" and l: "\<not> is_space (last s)" by auto
  from h False have "dropWhile is_space s = s"
    by (simp add: dropWhile_eq_self_iff)
  moreover from l False have "dropWhile is_space (rev s) = rev s"
    by (simp add: dropWhile_eq_self_iff hd_rev)
  ultimately show ?thesis by (simp add: trim_def)
qed

lemma trim_ends:
  "trim s = [] \<or> (\<not> is_space (hd (trim s)) \<and> \<not> is_space (last (trim s)))"
proof (cases "trim s = []")
  case True
  then show ?thesis by simp
next
  case False
  let ?t = "dropWhile is_space s"
  let ?u = "dropWhile is_space (rev ?t)"
  from False have u: "?u \<noteq> []" by (simp add: trim_def)
  have t: "?t \<noteq> []"
  proof
    assume "?t = []"
    then have "?u = []" by (simp only: rev.simps dropWhile.simps)
    with u show False by simp
  qed
  from u have "\<not> is_space (hd ?u)" by (rule hd_dropWhile)
  with u have l: "\<not> is_space (last (trim s))"
    by (simp add: trim_def last_rev)
  have "last (takeWhile is_space (rev ?t) @ ?u) = last ?u"
    using u by (rule last_appendR)
  then have "last ?u = hd ?t"
    using t by (simp add: last_rev)
  moreover from t have "\<not> is_space (hd ?t)" by (rule hd_dropWhile)
  ultimately have "\<not> is_space (hd (trim s))"
    using u by (simp add: trim_def hd_rev)
  with l show ?thesis by simp
qed

lemma trim_trim: "trim (trim s) = trim s"
  by (rule trim_id) (rule trim_ends)

lemma cleaned_no_fence: "\<not> contains_fence (cleaned raw)"
  unfolding cleaned_def
  by (intro no_fence_trim) (simp add: replace_fence_end_id no_fence_after_replace)

lemma cleaned_ends:
  "cleaned raw = [] \<or> (\<not> is_space (hd (cleaned raw)) \<and> \<not> is_space (last (cleaned raw)))"
  unfolding cleaned_def by (rule trim_ends)

lemma cleaned_clean: "clean_markup s \<Longrightarrow> cleaned s = s"
  by (simp add: clean_markup_def cleaned_def replace_fence_open_id replace_fence_end_id trim_id)

text \<open>
  C8: the sanitization of line 110 to 113 maps clean markup (no three backticks in a row,
  no white space at either end) to itself, and applying it twice gives what applying it
  once gives.
\<close>

theorem sanitization_idempotent:
  "(clean_markup s \<longrightarrow> cleaned s = s) \<and> cleaned (cleaned s) = cleaned s"
proof
  show "clean_markup s \<longrightarrow> cleaned s = s"
    by (simp add: cleaned_clean)
next
  have "clean_markup (cleaned s)"
    unfolding clean_markup_def using cleaned_no_fence cleaned_ends by blast
  then show "cleaned (cleaned s) = cleaned s"
    by (rule cleaned_clean)
qed

theorem sanitization_idempotent_witness:
  "clean_markup (js ''<p>hi</p>'') \<and> cleaned (js ''<p>hi</p>'') = js ''<p>hi</p>''
   \<and> cleaned (cleaned (js ''```html\<newline><p>hi</p>\<newline>```''))
       = cleaned (js ''```html\<newline><p>hi</p>\<newline>```'')"
proof -
  have c: "clean_markup (js ''<p>hi</p>'')"
    by (simp add: clean_markup_def js_def is_space_def backtick_def)
  from c sanitization_idempotent [of "js ''<p>hi</p>''"]
    sanitization_idempotent [of "js ''```html\<newline><p>hi</p>\<newline>```''"]
  show ?thesis by blast
qed

section \<open>Rules for awaited effects\<close>

lemma ensures_await:
  "ensures m w (\<lambda>x w'. ensures (k x) w' Q E) E \<Longrightarrow> ensures (await m k) w Q E"
  by (simp add: ensures_def await_def split: prod.splits sum.splits)

lemma ensures_resolve: "Q x w \<Longrightarrow> ensures (resolve x) w Q E"
  by (simp add: ensures_def resolve_def)

lemma ensures_if:
  "(b \<Longrightarrow> ensures m w Q E) \<Longrightarrow> (\<not> b \<Longrightarrow> ensures n w Q E) \<Longrightarrow>
   ensures (if b then m else n) w Q E"
  by simp

lemma ensures_chat:
  "(reply_to env r = Rejected \<Longrightarrow> E ApiError (w\<lparr>ai_requests := ai_requests w @ [r]\<rparr>)) \<Longrightarrow>
   (\<And>cs. reply_to env r = Choices cs \<Longrightarrow> Q cs (w\<lparr>ai_requests := ai_requests w @ [r]\<rparr>)) \<Longrightarrow>
   ensures (chat_completions_create env r) w Q E"
  by (simp add: ensures_def chat_completions_create_def split: ai_reply.splits)

lemma ensures_first_content:
  "(cs = [] \<Longrightarrow> E TypeError w) \<Longrightarrow> (\<And>c cs'. cs = c # cs' \<Longrightarrow> Q c w) \<Longrightarrow>
   ensures (first_content cs) w Q E"
  by (simp add: ensures_def first_content_def resolve_def reject_def split: list.splits)

lemma ensures_conversation_create:
  "(db_fails env op \<Longrightarrow> E (DbError op) w) \<Longrightarrow>
   (\<not> db_fails env op \<Longrightarrow> Q () (w\<lparr>conversation := conversation w @ [e]\<rparr>)) \<Longrightarrow>
   ensures (conversation_create env op e) w Q E"
  by (simp add: ensures_def conversation_create_def)

lemma ensures_version_create:
  "(db_fails env op \<Longrightarrow> E (DbError op) w) \<Longrightarrow>
   (\<not> db_fails env op \<Longrightarrow> Q (length (versions w)) (w\<lparr>versions := versions w @ [v]\<rparr>)) \<Longrightarrow>
   ensures (version_create env op v) w Q E"
  by (simp add: ensures_def version_create_def)

lemma ensures_user_update:
  "(db_fails env op \<Longrightarrow> E (DbError op) w) \<Longrightarrow>
   (\<not> db_fails env op \<Longrightarrow> users w uid = None \<Longrightarrow> E RecordNotFound w) \<Longrightarrow>
   (\<And>u. \<not> db_fails env op \<Longrightarrow> users w uid = Some u \<Longrightarrow>
      Q () (w\<lparr>users := (users w)(uid \<mapsto> f u)\<rparr>)) \<Longrightarrow>
   ensures (user_update env op uid f) w Q E"
  by (simp add: ensures_def user_update_def split: option.splits)

lemma ensures_websiteProject_update:
  "(db_fails env op \<Longrightarrow> E (DbError op) w) \<Longrightarrow>
   (\<not> db_fails env op \<Longrightarrow> \<not> pid < length (projects w) \<Longrightarrow> E RecordNotFound w) \<Longrightarrow>
   (\<not> db_fails env op \<Longrightarrow> pid < length (projects w) \<Longrightarrow>
      Q () (w\<lparr>projects := (projects w)[pid := f (projects w ! pid)]\<rparr>)) \<Longrightarrow>
   ensures (websiteProject_update env op pid f) w Q E"
  by (simp add: ensures_def websiteProject_update_def)

lemmas ensures_rules = ensures_await ensures_resolve ensures_if ensures_chat ensures_first_content
  ensures_conversation_create ensures_version_create ensures_user_update
  ensures_websiteProject_update

lemmas io_defs = resolve_def reject_def await_def user_findUnique_def user_update_def
  websiteProject_create_def websiteProject_update_def conversation_create_def
  version_create_def chat_completions_create_def first_content_def console_log_def
  reply_to_def

lemmas row_defs = new_project_def prompt_entry_def assistant_entry_def start_notice_def
  failure_notice_def success_notice_def initial_version_def

section \<open>The request up to the response\<close>

lemma createUserProject_debited:
  assumes "accepted env uid prompt w u"
  shows "createUserProject env (Some uid) (Some prompt) w =
    ((Response 200 (ProjectId_json (length (projects w))), Some (job_of uid prompt w)),
     responded uid prompt u w)"
  using assms
  by (simp add: createUserProject_def createUserProject_try_def io_defs sync_ok_def
        accepted_def responded_def job_of_def row_defs)

text \<open>
  The background function is started, after the debit, exactly by the accepted requests.
\<close>

lemma createUserProject_try_started:
  "ensures (createUserProject_try env ruid body) w
     (\<lambda>sent w'. snd sent \<noteq> None \<longrightarrow>
        (\<exists>uid prompt u. ruid = Some uid \<and> body = Some prompt \<and> accepted env uid prompt w u))
     (\<lambda>e w'. True)"
  unfolding createUserProject_try_def
  by (cases ruid; cases body)
     (auto simp: ensures_def io_defs accepted_def sync_ok_def split: option.splits if_splits)

lemma debited_iff:
  "(\<exists>sent j w'. createUserProject env ruid body w = ((sent, Some j), w'))
   \<longleftrightarrow> (\<exists>uid prompt u. ruid = Some uid \<and> body = Some prompt \<and> accepted env uid prompt w u)"
proof
  assume "\<exists>sent j w'. createUserProject env ruid body w = ((sent, Some j), w')"
  then obtain sent j w' where c: "createUserProject env ruid body w = ((sent, Some j), w')"
    by blast
  with createUserProject_try_started [of env ruid body w]
  show "\<exists>uid prompt u. ruid = Some uid \<and> body = Some prompt \<and> accepted env uid prompt w u"
    by (auto simp: createUserProject_def ensures_def split: prod.splits sum.splits)
next
  assume "\<exists>uid prompt u. ruid = Some uid \<and> body = Some prompt \<and> accepted env uid prompt w u"
  then show "\<exists>sent j w'. createUserProject env ruid body w = ((sent, Some j), w')"
    by (auto simp: createUserProject_debited)
qed

lemma generation_debited:
  assumes "accepted env uid prompt w u"
  shows "generation env (Some uid) (Some prompt) w =
    (Response 200 (ProjectId_json (length (projects w))),
     snd (background env (job_of uid prompt w) (responded uid prompt u w)))"
  by (simp add: generation_def createUserProject_debited [OF assms])

lemma final_debited:
  assumes "accepted env uid prompt w u"
  shows "final env uid prompt w
           = snd (background env (job_of uid prompt w) (responded uid prompt u w))"
  by (simp add: final_def generation_debited [OF assms])

lemma responded_simps:
  "users (responded uid prompt u w) uid
     = Some (u\<lparr>totalCreation := totalCreation u + 1, credits := credits u - 5\<rparr>)"
  "projects (responded uid prompt u w) = projects w @ [new_project uid prompt]"
  "conversation (responded uid prompt u w)
     = conversation w @ [prompt_entry prompt (length (projects w))]"
  "versions (responded uid prompt u w) = versions w"
  "console (responded uid prompt u w) = console w"
  "ai_requests (responded uid prompt u w) = ai_requests w"
  by (simp_all add: responded_def)

lemma job_of_simps:
  "j_userId (job_of uid prompt w) = uid"
  "j_initial_prompt (job_of uid prompt w) = prompt"
  "j_projectId (job_of uid prompt w) = length (projects w)"
  by (simp_all add: job_of_def)

section \<open>The background function\<close>

text \<open>
  Whatever the environment does, the body of \<open>try\<close> logs nothing and touches the balance
  only by the refund of the empty-output branch, its last write; and it leaves a version
  behind a rejection only when a write after the version's creation rejected.
\<close>

lemma background_try_cases:
  assumes "users w (j_userId j) = Some u"
  shows "ensures (background_try env j) w
     (\<lambda>_ w'. console w' = console w \<and>
         ((versions w' = versions w \<and> users w' = (users w)(j_userId j \<mapsto> refund u))
          \<or> (users w' = users w
              \<and> (\<exists>c. versions w' = versions w @ [initial_version c (j_projectId j)]))))
     (\<lambda>e w'. console w' = console w \<and> users w' = users w \<and> e \<noteq> DbError Bg_catch_refund \<and>
         (versions w' = versions w
          \<or> ((\<exists>c. versions w' = versions w @ [initial_version c (j_projectId j)])
              \<and> (db_fails env Bg_project_update \<or> db_fails env Bg_success_entry
                  \<or> \<not> j_projectId j < length (projects w)))))"
  unfolding background_try_def
  by (intro ensures_rules; simp add: assms initial_version_def)

lemma background_outcome:
  assumes u: "users w (j_userId j) = Some u"
  shows "\<exists>w'. background env j w = (Inr (), w')
     \<and> (users w' = users w \<or> users w' = (users w)(j_userId j \<mapsto> refund u))
     \<and> (console w' = console w
         \<or> (\<exists>e. e \<noteq> DbError Bg_catch_refund \<and> console w' = console w @ [Log_background_failed e]))
     \<and> (\<not> db_fails env Bg_project_update \<longrightarrow> \<not> db_fails env Bg_success_entry \<longrightarrow>
         \<not> db_fails env Bg_catch_refund \<longrightarrow> j_projectId j < length (projects w) \<longrightarrow>
           (users w' = users w
            \<and> (\<exists>c. versions w' = versions w @ [initial_version c (j_projectId j)]))
           \<or> (users w' = (users w)(j_userId j \<mapsto> refund u) \<and> versions w' = versions w))"
proof -
  obtain r w1 where t: "background_try env j w = (r, w1)"
    by (cases "background_try env j w")
  show ?thesis
  proof (cases r)
    case (Inl e)
    with background_try_cases [OF u, of env] t
    have c: "console w1 = console w" and us: "users w1 = users w"
      and e: "e \<noteq> DbError Bg_catch_refund"
      and v: "versions w1 = versions w
          \<or> ((\<exists>c. versions w1 = versions w @ [initial_version c (j_projectId j)])
              \<and> (db_fails env Bg_project_update \<or> db_fails env Bg_success_entry
                  \<or> \<not> j_projectId j < length (projects w)))"
      by (simp_all add: ensures_def)
    show ?thesis
    proof (cases "db_fails env Bg_catch_refund")
      case True
      then have "background env j w = (Inr (), console_log (Log_background_failed e) w1)"
        by (simp add: background_def t Inl user_update_def)
      with c us e show ?thesis
        by (simp add: console_log_def True)
    next
      case False
      then have "background env j w =
          (Inr (), (console_log (Log_background_failed e) w1)
                     \<lparr>users := (users w)(j_userId j \<mapsto> refund u)\<rparr>)"
        by (simp add: background_def t Inl user_update_def console_log_def us u)
      with c e v show ?thesis
        by (auto simp: console_log_def)
    qed
  next
    case (Inr x)
    with background_try_cases [OF u, of env] t
    have "console w1 = console w"
      and "(versions w1 = versions w \<and> users w1 = (users w)(j_userId j \<mapsto> refund u))
          \<or> (users w1 = users w
              \<and> (\<exists>c. versions w1 = versions w @ [initial_version c (j_projectId j)]))"
      by (simp_all add: ensures_def)
    moreover have "background env j w = (Inr (), w1)"
      by (simp add: background_def t Inr)
    ultimately show ?thesis by auto
  qed
qed

text \<open>The handler: it logs the error and refunds unless the refund itself rejects.\<close>

lemma background_handler:
  assumes "background_try env j w = (Inl e, w1)"
  shows "projects (snd (background env j w)) = projects w1"
    and "conversation (snd (background env j w)) = conversation w1"
    and "versions (snd (background env j w)) = versions w1"
    and "ai_requests (snd (background env j w)) = ai_requests w1"
    and "console (snd (background env j w)) = console w1 @ [Log_background_failed e]"
    and "users (snd (background env j w)) =
           (case users w1 (j_userId j) of
              None \<Rightarrow> users w1
            | Some u \<Rightarrow> if db_fails env Bg_catch_refund then users w1
                        else (users w1)(j_userId j \<mapsto> refund u))"
  using assms
  by (simp_all add: background_def user_update_def console_log_def split: option.splits)

text \<open>The runs in which no Prisma call rejects and both replies have a choice.\<close>

lemma background_success:
  assumes "no_faults env" "j_projectId j < length (projects w)"
    and "enhance_reply env (j_initial_prompt j) = Choices (c # cs)"
    and "generate_reply env (enhanced_prompt (j_initial_prompt j) c) = Choices (g # gs)"
    and "cleaned (raw_content g) \<noteq> []"
  shows "users (snd (background env j w)) = users w"
    and "projects (snd (background env j w)) =
           (projects w)[j_projectId j := (projects w ! j_projectId j)
              \<lparr>current_code := Some (cleaned (raw_content g)),
               current_version_index := Some (length (versions w))\<rparr>]"
    and "conversation (snd (background env j w)) = conversation w @
           [assistant_entry (enhanced_notice (enhanced_prompt (j_initial_prompt j) c))
              (j_projectId j),
            assistant_entry start_notice (j_projectId j),
            assistant_entry success_notice (j_projectId j)]"
    and "versions (snd (background env j w)) =
           versions w @ [initial_version (cleaned (raw_content g)) (j_projectId j)]"
  using assms
  by (simp_all add: background_def background_try_def io_defs no_faults_def row_defs)

lemma background_empty:
  assumes "no_faults env" "users w (j_userId j) = Some u"
    and "enhance_reply env (j_initial_prompt j) = Choices (c # cs)"
    and "generate_reply env (enhanced_prompt (j_initial_prompt j) c) = Choices (g # gs)"
    and "cleaned (raw_content g) = []"
  shows "users (snd (background env j w)) = (users w)(j_userId j \<mapsto> refund u)"
    and "projects (snd (background env j w)) = projects w"
    and "conversation (snd (background env j w)) = conversation w @
           [assistant_entry (enhanced_notice (enhanced_prompt (j_initial_prompt j) c))
              (j_projectId j),
            assistant_entry start_notice (j_projectId j),
            assistant_entry failure_notice (j_projectId j)]"
    and "versions (snd (background env j w)) = versions w"
  using assms
  by (simp_all add: background_def background_try_def io_defs no_faults_def row_defs)

text \<open>The runs in which a call of the completion service fails.\<close>

lemma background_enhance_failed:
  assumes "enhance_reply env (j_initial_prompt j) = Rejected
           \<or> enhance_reply env (j_initial_prompt j) = Choices []"
  shows "\<exists>e. background_try env j w =
           (Inl e, w\<lparr>ai_requests := ai_requests w @ [Enhance (j_initial_prompt j)]\<rparr>)"
  using assms by (auto simp: background_try_def io_defs)

lemma background_generate_failed:
  assumes "enhance_reply env (j_initial_prompt j) = Choices (c # cs)"
    and "\<not> db_fails env Bg_enhanced_entry" "\<not> db_fails env Bg_start_entry"
    and "generate_reply env (enhanced_prompt (j_initial_prompt j) c) = Rejected
         \<or> generate_reply env (enhanced_prompt (j_initial_prompt j) c) = Choices []"
  shows "\<exists>e w1. background_try env j w = (Inl e, w1)
           \<and> conversation w1 = conversation w @
           [assistant_entry (enhanced_notice (enhanced_prompt (j_initial_prompt j) c))
              (j_projectId j),
            assistant_entry start_notice (j_projectId j)]"
  using assms by (auto simp: background_try_def io_defs row_defs)

text \<open>
  The empty-output branch under every choice of rejecting writes: the refund is lost only
  when the branch rejects (at the failure notice or at its refund) and the handler's refund
  rejects too.
\<close>

lemma background_empty_faults:
  assumes "users w (j_userId j) = Some u"
    and "enhance_reply env (j_initial_prompt j) = Choices (c # cs)"
    and "\<not> db_fails env Bg_enhanced_entry" "\<not> db_fails env Bg_start_entry"
    and "generate_reply env (enhanced_prompt (j_initial_prompt j) c) = Choices (g # gs)"
    and "cleaned (raw_content g) = []"
  shows "users (snd (background env j w)) =
           (if (db_fails env Bg_failure_entry \<or> db_fails env Bg_empty_refund)
               \<and> db_fails env Bg_catch_refund
            then users w else (users w)(j_userId j \<mapsto> refund u))"
    and "projects (snd (background env j w)) = projects w"
    and "conversation (snd (background env j w)) = conversation w @
           [assistant_entry (enhanced_notice (enhanced_prompt (j_initial_prompt j) c))
              (j_projectId j),
            assistant_entry start_notice (j_projectId j)]
           @ (if db_fails env Bg_failure_entry then []
              else [assistant_entry failure_notice (j_projectId j)])"
    and "versions (snd (background env j w)) = versions w"
  using assms
  by (cases "db_fails env Bg_failure_entry"; cases "db_fails env Bg_empty_refund";
      cases "db_fails env Bg_catch_refund";
      simp add: background_def background_try_def io_defs row_defs)+

text \<open>A rejected notice write after the enhancement reply ends the body of \<open>try\<close>.\<close>

lemma background_notice_failed:
  assumes "enhance_reply env (j_initial_prompt j) = Choices (c # cs)"
    and "db_fails env Bg_enhanced_entry \<or> db_fails env Bg_start_entry"
  shows "\<exists>e w1. background_try env j w = (Inl e, w1)
           \<and> ai_requests w1 = ai_requests w @ [Enhance (j_initial_prompt j)]
           \<and> versions w1 = versions w \<and> users w1 = users w"
  using assms
  by (cases "db_fails env Bg_enhanced_entry")
     (auto simp: background_try_def io_defs)

text \<open>The requests sent to the completion service once the enhancement reply has a choice.\<close>

lemma background_try_requests:
  assumes "enhance_reply env (j_initial_prompt j) = Choices (c # cs)"
    and "\<not> db_fails env Bg_enhanced_entry" "\<not> db_fails env Bg_start_entry"
  shows "ensures (background_try env j) w
     (\<lambda>_ w'. ai_requests w' = ai_requests w @
           [Enhance (j_initial_prompt j), Generate (enhanced_prompt (j_initial_prompt j) c)])
     (\<lambda>_ w'. ai_requests w' = ai_requests w @
           [Enhance (j_initial_prompt j), Generate (enhanced_prompt (j_initial_prompt j) c)])"
  unfolding background_try_def
  by (intro ensures_rules; simp add: assms reply_to_def)

lemma background_ai_requests:
  "ai_requests (snd (background env j w)) = ai_requests (snd (background_try env j w))"
  by (simp add: background_def user_update_def console_log_def
           split: prod.splits sum.splits option.splits)

lemma background_requests:
  assumes "enhance_reply env (j_initial_prompt j) = Choices (c # cs)"
    and "\<not> db_fails env Bg_enhanced_entry" "\<not> db_fails env Bg_start_entry"
  shows "ai_requests (snd (background env j w)) = ai_requests w @
           [Enhance (j_initial_prompt j), Generate (enhanced_prompt (j_initial_prompt j) c)]"
  using background_try_requests [OF assms, of w]
  by (simp add: background_ai_requests ensures_def split: prod.splits sum.splits)

text \<open>A new project's identifier belongs to no row of a store that keeps its foreign keys.\<close>

lemma filter_fresh: "\<forall>x \<in> set xs. f x < n \<Longrightarrow> filter (\<lambda>x. f x = (n::nat)) xs = []"
  by (induction xs) auto

lemma entries_of_fresh:
  "store_ok w \<Longrightarrow> filter (\<lambda>e. c_projectId e = length (projects w)) (conversation w) = []"
  by (simp add: store_ok_def filter_fresh)

lemma versions_of_fresh:
  "store_ok w \<Longrightarrow> filter (\<lambda>v. v_projectId v = length (projects w)) (versions w) = []"
  by (simp add: store_ok_def filter_fresh)

section \<open>Evaluation of the example inputs\<close>

lemmas demo_defs = alice_def bob_def carol_def photographer_def blog_def demo_world_def
  demo_env_def

lemma trim_photographer: "trim photographer = photographer"
  by (simp add: photographer_def js_def trim_def is_space_def)

lemma accepted_demo:
  "set failing \<inter> {Create_find, Create_project, Create_count, Create_prompt_entry, Create_debit}
     = {} \<Longrightarrow>
   accepted (demo_env failing e g) alice photographer demo_world
     \<lparr>credits = 10, totalCreation = 1\<rparr>"
  by (auto simp: accepted_def sync_ok_def trim_photographer)
     (auto simp: demo_defs js_def)

lemma store_ok_demo: "store_ok demo_world"
  by (simp add: store_ok_def demo_defs)

lemma cleaned_hi: "cleaned (js ''<p>hi</p>'') = js ''<p>hi</p>''"
  by (simp add: cleaned_def js_def trim_def replace_fence_end_def is_space_def backtick_def)

lemma cleaned_fence: "cleaned (js ''```html\<newline>```'') = []"
  by (simp add: cleaned_def js_def trim_def replace_fence_end_def is_space_def is_letter_def
        skip_newline_def backtick_def newline_def)

section \<open>The claims\<close>

text \<open>
  C1, as amended: in every generation attempt whose debit succeeds, and in which neither
  the handler's refund nor a write after the creation of the version (the update of the
  project, the success notice) rejects, exactly one of the two outcomes is reached: a
  version of the new project is persisted and the balance stays 5 below its value before
  the request, or no version is persisted and the balance is back at that value. The
  replies of the completion service and the other Prisma calls of the background function
  are arbitrary.
\<close>

theorem version_or_refund:
  assumes "accepted env uid prompt w u"
    and "\<not> db_fails env Bg_project_update" "\<not> db_fails env Bg_success_entry"
    and "\<not> db_fails env Bg_catch_refund"
  shows "(balance uid (final env uid prompt w) = Some (credits u - 5)
          \<and> (\<exists>c. versions (final env uid prompt w)
                    = versions w @ [initial_version c (length (projects w))]))
         \<or> (balance uid (final env uid prompt w) = Some (credits u)
             \<and> versions (final env uid prompt w) = versions w)"
proof -
  let ?j = "job_of uid prompt w"
  let ?w = "responded uid prompt u w"
  let ?u = "u\<lparr>totalCreation := totalCreation u + 1, credits := credits u - 5\<rparr>"
  have "users ?w (j_userId ?j) = Some ?u"
    by (simp add: responded_simps job_of_simps)
  from background_outcome [OF this, of env]
  obtain w' where bg: "background env ?j ?w = (Inr (), w')"
    and alt: "\<not> db_fails env Bg_project_update \<longrightarrow> \<not> db_fails env Bg_success_entry \<longrightarrow>
         \<not> db_fails env Bg_catch_refund \<longrightarrow> j_projectId ?j < length (projects ?w) \<longrightarrow>
           (users w' = users ?w
            \<and> (\<exists>c. versions w' = versions ?w @ [initial_version c (j_projectId ?j)]))
           \<or> (users w' = (users ?w)(j_userId ?j \<mapsto> refund ?u) \<and> versions w' = versions ?w)"
    by blast
  from alt assms(2-4)
  have "(users w' = users ?w
            \<and> (\<exists>c. versions w' = versions ?w @ [initial_version c (j_projectId ?j)]))
        \<or> (users w' = (users ?w)(j_userId ?j \<mapsto> refund ?u) \<and> versions w' = versions ?w)"
    by (simp add: responded_simps job_of_simps)
  then show ?thesis
  proof
    assume "users w' = users ?w
            \<and> (\<exists>c. versions w' = versions ?w @ [initial_version c (j_projectId ?j)])"
    then show ?thesis
      unfolding final_debited [OF assms(1)] bg
      by (simp add: balance_def responded_simps job_of_simps)
  next
    assume "users w' = (users ?w)(j_userId ?j \<mapsto> refund ?u) \<and> versions w' = versions ?w"
    then show ?thesis
      unfolding final_debited [OF assms(1)] bg
      by (simp add: balance_def refund_def responded_simps job_of_simps)
  qed
qed

theorem version_or_refund_witness:
  "accepted (demo_env [Bg_version] (Choices [None]) (Choices [Some (js ''<p>hi</p>'')]))
     alice photographer demo_world \<lparr>credits = 10, totalCreation = 1\<rparr>
   \<and> ((balance alice (final (demo_env [Bg_version] (Choices [None])
                               (Choices [Some (js ''<p>hi</p>'')]))
                         alice photographer demo_world) = Some 5
        \<and> (\<exists>c. versions (final (demo_env [Bg_version] (Choices [None])
                                  (Choices [Some (js ''<p>hi</p>'')]))
                            alice photographer demo_world)
                 = versions demo_world @ [initial_version c 1]))
       \<or> (balance alice (final (demo_env [Bg_version] (Choices [None])
                                  (Choices [Some (js ''<p>hi</p>'')]))
                            alice photographer demo_world) = Some 10
           \<and> versions (final (demo_env [Bg_version] (Choices [None])
                                 (Choices [Some (js ''<p>hi</p>'')]))
                           alice photographer demo_world) = versions demo_world))"
proof -
  let ?env = "demo_env [Bg_version] (Choices [None]) (Choices [Some (js ''<p>hi</p>'')])"
  have a: "accepted ?env alice photographer demo_world \<lparr>credits = 10, totalCreation = 1\<rparr>"
    by (rule accepted_demo) simp
  have f: "\<not> db_fails ?env Bg_project_update" "\<not> db_fails ?env Bg_success_entry"
    "\<not> db_fails ?env Bg_catch_refund"
    by (simp_all add: demo_env_def)
  have l: "length (projects demo_world) = 1"
    by (simp add: demo_world_def)
  from a version_or_refund [OF a f] show ?thesis
    by (simp add: l)
qed

text \<open>
  The claim as stated fails both ways. When the update of the project rejects after the
  version is created, the version stays and the 5 credits are refunded (both); when the
  enhancement call and then the handler's refund reject, there is no version and no refund
  (neither).
\<close>

theorem version_or_refund_counterexample:
  "balance alice demo_world = Some 10
   \<and> balance alice (final (demo_env [Bg_project_update] (Choices [None])
                             (Choices [Some (js ''<p>hi</p>'')]))
                       alice photographer demo_world) = Some 10
   \<and> versions (final (demo_env [Bg_project_update] (Choices [None])
                        (Choices [Some (js ''<p>hi</p>'')]))
                  alice photographer demo_world)
       = versions demo_world @ [initial_version (js ''<p>hi</p>'') 1]
   \<and> balance alice (final (demo_env [Bg_catch_refund] Rejected Rejected)
                       alice photographer demo_world) = Some 5
   \<and> versions (final (demo_env [Bg_catch_refund] Rejected Rejected)
                  alice photographer demo_world) = versions demo_world"
  by code_simp

text \<open>
  C2: a generation request that completes with no error (no Prisma call rejects, both
  replies of the completion service have a choice, the sanitized output is not empty) is
  answered with the identifier of the new project, leaves the balance exactly 5 below its
  value before the request, creates exactly one version, which belongs to the new project
  (and is the only version of that project when the store keeps its foreign keys), and
  sets the \<open>current_code\<close> and the \<open>current_version_index\<close> of the project to the code and
  the identifier of that version.
\<close>

theorem successful_generation:
  assumes "accepted env uid prompt w u" and "no_faults env"
    and "enhance_reply env prompt = Choices (c # cs)"
    and "generate_reply env (enhanced_prompt prompt c) = Choices (g # gs)"
    and "cleaned (raw_content g) \<noteq> []"
  shows "fst (generation env (Some uid) (Some prompt) w)
           = Response 200 (ProjectId_json (length (projects w)))
     \<and> balance uid w = Some (credits u)
     \<and> balance uid (final env uid prompt w) = Some (credits u - 5)
     \<and> versions (final env uid prompt w)
           = versions w @ [initial_version (cleaned (raw_content g)) (length (projects w))]
     \<and> (store_ok w \<longrightarrow>
           versions_of (length (projects w)) (final env uid prompt w)
             = [initial_version (cleaned (raw_content g)) (length (projects w))])
     \<and> projects (final env uid prompt w)
           = projects w @ [(new_project uid prompt)
                \<lparr>current_code := Some (cleaned (raw_content g)),
                 current_version_index := Some (length (versions w))\<rparr>]"
proof -
  let ?j = "job_of uid prompt w"
  let ?w = "responded uid prompt u w"
  have p: "j_projectId ?j < length (projects ?w)"
    by (simp add: responded_simps job_of_simps)
  have e: "enhance_reply env (j_initial_prompt ?j) = Choices (c # cs)"
    using assms(3) by (simp add: job_of_simps)
  have r: "generate_reply env (enhanced_prompt (j_initial_prompt ?j) c) = Choices (g # gs)"
    using assms(4) by (simp add: job_of_simps)
  note bg = background_success [OF assms(2) p e r assms(5)]
  note f = final_debited [OF assms(1)]
  from assms(1) have b0: "balance uid w = Some (credits u)"
    by (simp add: accepted_def balance_def)
  have b: "balance uid (final env uid prompt w) = Some (credits u - 5)"
    by (simp add: f balance_def bg(1) responded_simps)
  have v: "versions (final env uid prompt w)
        = versions w @ [initial_version (cleaned (raw_content g)) (length (projects w))]"
    by (simp add: f bg(4) responded_simps job_of_simps)
  have vo: "store_ok w \<longrightarrow> versions_of (length (projects w)) (final env uid prompt w)
             = [initial_version (cleaned (raw_content g)) (length (projects w))]"
    by (simp add: versions_of_def v versions_of_fresh initial_version_def)
  have pr: "projects (final env uid prompt w) = projects w @ [(new_project uid prompt)
                \<lparr>current_code := Some (cleaned (raw_content g)),
                 current_version_index := Some (length (versions w))\<rparr>]"
    by (simp add: f bg(2) responded_simps job_of_simps)
  from b0 b v vo pr show ?thesis
    by (simp add: generation_debited [OF assms(1)])
qed

theorem successful_generation_witness:
  "accepted (demo_env [] (Choices [None]) (Choices [Some (js ''<p>hi</p>'')]))
     alice photographer demo_world \<lparr>credits = 10, totalCreation = 1\<rparr>
   \<and> no_faults (demo_env [] (Choices [None]) (Choices [Some (js ''<p>hi</p>'')]))
   \<and> cleaned (raw_content (Some (js ''<p>hi</p>''))) \<noteq> []
   \<and> store_ok demo_world
   \<and> fst (generation (demo_env [] (Choices [None]) (Choices [Some (js ''<p>hi</p>'')]))
             (Some alice) (Some photographer) demo_world) = Response 200 (ProjectId_json 1)
   \<and> balance alice demo_world = Some 10
   \<and> balance alice (final (demo_env [] (Choices [None]) (Choices [Some (js ''<p>hi</p>'')]))
                       alice photographer demo_world) = Some 5
   \<and> versions_of 1 (final (demo_env [] (Choices [None]) (Choices [Some (js ''<p>hi</p>'')]))
                       alice photographer demo_world) = [initial_version (js ''<p>hi</p>'') 1]
   \<and> projects (final (demo_env [] (Choices [None]) (Choices [Some (js ''<p>hi</p>'')]))
                  alice photographer demo_world)
       = [blog, (new_project alice photographer)
                  \<lparr>current_code := Some (js ''<p>hi</p>''), current_version_index := Some 1\<rparr>]"
proof -
  let ?env = "demo_env [] (Choices [None]) (Choices [Some (js ''<p>hi</p>'')])"
  have a: "accepted ?env alice photographer demo_world \<lparr>credits = 10, totalCreation = 1\<rparr>"
    by (rule accepted_demo) simp
  have n: "no_faults ?env"
    by (simp add: no_faults_def demo_env_def)
  have e: "enhance_reply ?env photographer = Choices [None]"
    by (simp add: demo_env_def)
  have g: "generate_reply ?env (enhanced_prompt photographer None)
             = Choices [Some (js ''<p>hi</p>'')]"
    by (simp add: demo_env_def)
  have c: "cleaned (raw_content (Some (js ''<p>hi</p>''))) = js ''<p>hi</p>''"
    by (simp add: raw_content_def cleaned_hi)
  then have c': "cleaned (raw_content (Some (js ''<p>hi</p>''))) \<noteq> []"
    by (simp add: js_def)
  have l: "length (projects demo_world) = 1" "length (versions demo_world) = 1"
    "projects demo_world = [blog]"
    by (simp_all add: demo_world_def)
  from a n c' store_ok_demo successful_generation [OF a n e g c'] show ?thesis
    by (simp add: l c)
qed

text \<open>
  C3, as amended: in every generation whose code-generation stage yields empty output after
  sanitization (the debit succeeded, both replies of the completion service have a choice,
  the two notices before the generation were written), no version is created and the
  project stays persisted, without code, with its conversation entries: the user's prompt,
  the enhanced-prompt notice, the start notice and, unless its write rejects, the
  assistant's failure notice. The balance is back at its value before the request (debit
  of 5, refund of 5) unless the refund is lost, which happens exactly when the write of the
  failure notice or the refund of the empty-output branch rejects and the handler's refund
  rejects too; the balance then stays 5 below. In particular, when no Prisma call rejects,
  the balance is restored and the failure notice is the fourth entry.
\<close>

theorem empty_output_compensated:
  assumes "accepted env uid prompt w u"
    and "enhance_reply env prompt = Choices (c # cs)"
    and "\<not> db_fails env Bg_enhanced_entry" "\<not> db_fails env Bg_start_entry"
    and "generate_reply env (enhanced_prompt prompt c) = Choices (g # gs)"
    and "cleaned (raw_content g) = []"
  shows "balance uid w = Some (credits u)
     \<and> balance uid (final env uid prompt w) =
          Some (if (db_fails env Bg_failure_entry \<or> db_fails env Bg_empty_refund)
                   \<and> db_fails env Bg_catch_refund
                then credits u - 5 else credits u)
     \<and> versions (final env uid prompt w) = versions w
     \<and> projects (final env uid prompt w) = projects w @ [new_project uid prompt]
     \<and> conversation (final env uid prompt w) = conversation w @
          [prompt_entry prompt (length (projects w)),
           assistant_entry (enhanced_notice (enhanced_prompt prompt c)) (length (projects w)),
           assistant_entry start_notice (length (projects w))]
          @ (if db_fails env Bg_failure_entry then []
             else [assistant_entry failure_notice (length (projects w))])"
proof -
  let ?j = "job_of uid prompt w"
  let ?w = "responded uid prompt u w"
  let ?u = "u\<lparr>totalCreation := totalCreation u + 1, credits := credits u - 5\<rparr>"
  have us: "users ?w (j_userId ?j) = Some ?u"
    by (simp add: responded_simps job_of_simps)
  have e: "enhance_reply env (j_initial_prompt ?j) = Choices (c # cs)"
    using assms(2) by (simp add: job_of_simps)
  have r: "generate_reply env (enhanced_prompt (j_initial_prompt ?j) c) = Choices (g # gs)"
    using assms(5) by (simp add: job_of_simps)
  note bg = background_empty_faults [OF us e assms(3,4) r assms(6)]
  note f = final_debited [OF assms(1)]
  from assms(1) have "balance uid w = Some (credits u)"
    by (simp add: accepted_def balance_def)
  moreover have "balance uid (final env uid prompt w) =
          Some (if (db_fails env Bg_failure_entry \<or> db_fails env Bg_empty_refund)
                   \<and> db_fails env Bg_catch_refund
                then credits u - 5 else credits u)"
    by (simp add: f balance_def bg(1) job_of_simps responded_simps refund_def)
  moreover have "versions (final env uid prompt w) = versions w"
    by (simp add: f bg(4) responded_simps)
  moreover have "projects (final env uid prompt w) = projects w @ [new_project uid prompt]"
    by (simp add: f bg(2) responded_simps)
  moreover have "conversation (final env uid prompt w) = conversation w @
          [prompt_entry prompt (length (projects w)),
           assistant_entry (enhanced_notice (enhanced_prompt prompt c)) (length (projects w)),
           assistant_entry start_notice (length (projects w))]
          @ (if db_fails env Bg_failure_entry then []
             else [assistant_entry failure_notice (length (projects w))])"
    by (simp add: f bg(3) responded_simps job_of_simps)
  ultimately show ?thesis by blast
qed

theorem empty_output_compensated_witness:
  "accepted (demo_env [Bg_empty_refund] (Choices [None]) (Choices [Some (js ''```html\<newline>```'')]))
     alice photographer demo_world \<lparr>credits = 10, totalCreation = 1\<rparr>
   \<and> \<not> db_fails (demo_env [Bg_empty_refund] (Choices [None])
                    (Choices [Some (js ''```html\<newline>```'')])) Bg_enhanced_entry
   \<and> \<not> db_fails (demo_env [Bg_empty_refund] (Choices [None])
                    (Choices [Some (js ''```html\<newline>```'')])) Bg_start_entry
   \<and> cleaned (raw_content (Some (js ''```html\<newline>```''))) = []
   \<and> balance alice demo_world = Some 10
   \<and> balance alice (final (demo_env [Bg_empty_refund] (Choices [None])
                             (Choices [Some (js ''```html\<newline>```'')]))
                       alice photographer demo_world) = Some 10
   \<and> versions (final (demo_env [Bg_empty_refund] (Choices [None])
                        (Choices [Some (js ''```html\<newline>```'')]))
                  alice photographer demo_world) = versions demo_world
   \<and> projects (final (demo_env [Bg_empty_refund] (Choices [None])
                        (Choices [Some (js ''```html\<newline>```'')]))
                  alice photographer demo_world) = [blog, new_project alice photographer]
   \<and> conversation (final (demo_env [Bg_empty_refund] (Choices [None])
                            (Choices [Some (js ''```html\<newline>```'')]))
                      alice photographer demo_world) = conversation demo_world @
          [prompt_entry photographer 1,
           assistant_entry (enhanced_notice photographer) 1,
           assistant_entry start_notice 1,
           assistant_entry failure_notice 1]"
proof -
  let ?env = "demo_env [Bg_empty_refund] (Choices [None])
                (Choices [Some (js ''```html\<newline>```'')])"
  have a: "accepted ?env alice photographer demo_world \<lparr>credits = 10, totalCreation = 1\<rparr>"
    by (rule accepted_demo) simp
  have n: "\<not> db_fails ?env Bg_enhanced_entry" "\<not> db_fails ?env Bg_start_entry"
    by (simp_all add: demo_env_def)
  have d: "\<not> db_fails ?env Bg_failure_entry" "db_fails ?env Bg_empty_refund"
    "\<not> db_fails ?env Bg_catch_refund"
    by (simp_all add: demo_env_def)
  have e: "enhance_reply ?env photographer = Choices [None]"
    by (simp add: demo_env_def)
  have g: "generate_reply ?env (enhanced_prompt photographer None)
             = Choices [Some (js ''```html\<newline>```'')]"
    by (simp add: demo_env_def)
  have c: "cleaned (raw_content (Some (js ''```html\<newline>```''))) = []"
    by (simp add: raw_content_def cleaned_fence)
  have l: "length (projects demo_world) = 1" "projects demo_world = [blog]"
    by (simp_all add: demo_world_def)
  have p: "enhanced_prompt photographer None = photographer"
    by (simp add: enhanced_prompt_def)
  from a n c empty_output_compensated [OF a e n g c] show ?thesis
    by (simp add: l p d)
qed

text \<open>
  The claim as stated fails when Prisma calls reject. With empty sanitized output, when
  the refund of the empty-output branch and the handler's refund both reject, the balance
  stays at 5 although it was 10 before the request; when the write of the failure notice
  rejects, the balance is restored by the handler but the conversation has no failure
  notice.
\<close>

theorem empty_output_compensated_counterexample:
  "cleaned (raw_content (Some (js ''```html\<newline>```''))) = []
   \<and> balance alice demo_world = Some 10
   \<and> balance alice (final (demo_env [Bg_empty_refund, Bg_catch_refund] (Choices [None])
                             (Choices [Some (js ''```html\<newline>```'')]))
                       alice photographer demo_world) = Some 5
   \<and> balance alice (final (demo_env [Bg_failure_entry] (Choices [None])
                             (Choices [Some (js ''```html\<newline>```'')]))
                       alice photographer demo_world) = Some 10
   \<and> entries_of 1 (final (demo_env [Bg_failure_entry] (Choices [None])
                            (Choices [Some (js ''```html\<newline>```'')]))
                      alice photographer demo_world) =
        [prompt_entry photographer 1,
         assistant_entry (enhanced_notice photographer) 1,
         assistant_entry start_notice 1]"
  by code_simp

text \<open>
  C4: for an authenticated user with fewer than 5 credits whose lookup does not reject, a
  generation request with a prompt that is not blank is answered with 403 (insufficient
  credits) and starts no background function; whatever the body of the request, the world
  is left as it was: no debit, no project, no conversation entry.
\<close>

theorem insufficient_credits:
  assumes "uid \<noteq> []" "users w uid = Some u" "credits u < 5" "\<not> db_fails env Create_find"
  shows "(trim prompt \<noteq> [] \<longrightarrow>
          createUserProject env (Some uid) (Some prompt) w =
            ((Response 403 (Message (js ''Add credits to create more projects'')), None), w)
          \<and> generation env (Some uid) (Some prompt) w =
            (Response 403 (Message (js ''Add credits to create more projects'')), w))
         \<and> snd (generation env (Some uid) body w) = w"
  using assms
  by (simp add: generation_def createUserProject_def createUserProject_try_def io_defs
           split: option.splits)

theorem insufficient_credits_witness:
  "bob \<noteq> [] \<and> users demo_world bob = Some \<lparr>credits = 3, totalCreation = 0\<rparr>
   \<and> credits \<lparr>credits = 3, totalCreation = 0\<rparr> < 5
   \<and> \<not> db_fails (demo_env [] Rejected Rejected) Create_find
   \<and> trim photographer \<noteq> []
   \<and> generation (demo_env [] Rejected Rejected) (Some bob) (Some photographer) demo_world =
        (Response 403 (Message (js ''Add credits to create more projects'')), demo_world)
   \<and> snd (generation (demo_env [] Rejected Rejected) (Some bob) None demo_world) = demo_world"
proof -
  have b: "bob \<noteq> []"
    by (simp add: bob_def js_def)
  have u: "users demo_world bob = Some \<lparr>credits = 3, totalCreation = 0\<rparr>"
    by (simp add: demo_defs js_def)
  have c: "credits \<lparr>credits = 3, totalCreation = 0\<rparr> < 5"
    by simp
  have f: "\<not> db_fails (demo_env [] Rejected Rejected) Create_find"
    by (simp add: demo_env_def)
  have t: "trim photographer \<noteq> []"
    by (simp add: trim_photographer) (simp add: photographer_def js_def)
  from b u c f t insufficient_credits [OF b u c f, of photographer None] show ?thesis
    by simp
qed

text \<open>
  C9: when user A owns a project, the \<open>getUserProject\<close> request of another user B for it
  has the same response and the same effect as B's request for an identifier that no
  project has; when B is authenticated and the lookup does not reject, both are answered
  with status 200 and \<open>project: null\<close>.
\<close>

theorem ownership_isolation:
  assumes "pid < length (projects w)" "userId (projects w ! pid) = a" "b \<noteq> a"
    and "\<not> missing < length (projects w)"
  shows "getUserProject env (Some b) pid w = getUserProject env (Some b) missing w
     \<and> (b \<noteq> [] \<and> \<not> db_fails env Project_find \<longrightarrow>
          getUserProject env (Some b) pid w = (Response 200 (Project_json None), w))"
  using assms
  by (simp add: getUserProject_def websiteProject_findUnique_def)

theorem ownership_isolation_witness:
  "0 < length (projects demo_world) \<and> userId (projects demo_world ! 0) = alice \<and> bob \<noteq> alice
   \<and> \<not> 7 < length (projects demo_world)
   \<and> bob \<noteq> [] \<and> \<not> db_fails (demo_env [] Rejected Rejected) Project_find
   \<and> getUserProject (demo_env [] Rejected Rejected) (Some bob) 0 demo_world
       = getUserProject (demo_env [] Rejected Rejected) (Some bob) 7 demo_world
   \<and> getUserProject (demo_env [] Rejected Rejected) (Some bob) 0 demo_world
       = (Response 200 (Project_json None), demo_world)"
proof -
  have p: "0 < length (projects demo_world)" "userId (projects demo_world ! 0) = alice"
    by (simp_all add: demo_world_def blog_def)
  have n: "bob \<noteq> alice" "bob \<noteq> []"
    by (simp_all add: bob_def alice_def js_def)
  have m: "\<not> 7 < length (projects demo_world)"
    by (simp add: demo_world_def)
  have f: "\<not> db_fails (demo_env [] Rejected Rejected) Project_find"
    by (simp add: demo_env_def)
  from n(2) f ownership_isolation [OF p n(1) m, of "demo_env [] Rejected Rejected"]
  have r: "getUserProject (demo_env [] Rejected Rejected) (Some bob) 0 demo_world
             = getUserProject (demo_env [] Rejected Rejected) (Some bob) 7 demo_world"
    "getUserProject (demo_env [] Rejected Rejected) (Some bob) 0 demo_world
       = (Response 200 (Project_json None), demo_world)"
    by blast+
  show ?thesis
    by (intro conjI p n m f r)
qed

text \<open>
  C10: for an authenticated caller without a user record, whose lookup does not reject,
  \<open>getUserCredits\<close> answers with status 200 and 0 credits, and changes nothing.
\<close>

theorem credits_of_missing_user:
  assumes "uid \<noteq> []" "users w uid = None" "\<not> db_fails env Credits_find"
  shows "getUserCredits env (Some uid) w = (Response 200 (Credits_json 0), w)"
  using assms by (simp add: getUserCredits_def user_findUnique_def)

theorem credits_of_missing_user_witness:
  "carol \<noteq> [] \<and> users demo_world carol = None
   \<and> \<not> db_fails (demo_env [] Rejected Rejected) Credits_find
   \<and> getUserCredits (demo_env [] Rejected Rejected) (Some carol) demo_world
       = (Response 200 (Credits_json 0), demo_world)"
proof -
  have c: "carol \<noteq> []"
    by (simp add: carol_def js_def)
  have u: "users demo_world carol = None"
    by (simp add: demo_defs js_def)
  have f: "\<not> db_fails (demo_env [] Rejected Rejected) Credits_find"
    by (simp add: demo_env_def)
  from c u f credits_of_missing_user [OF c u f] show ?thesis
    by simp
qed

text \<open>
  C5, as amended: when no Prisma call rejects and the store keeps its foreign keys, the
  conversation entries of the new project at the end of a generation attempt are
  determined by the outcome. A successful generation leaves exactly 4 (the user's prompt,
  the enhanced-prompt notice, the start notice, the success notice); an empty-output
  failure leaves exactly 4 as well (the user's prompt, the enhanced-prompt notice, the
  start notice, the failure notice); a failed code-generation call leaves the first 3; a
  failed enhancement call leaves exactly 1, the user's prompt.
\<close>

theorem conversation_entries_by_outcome:
  assumes "accepted env uid prompt w u" and "no_faults env" and "store_ok w"
  shows "(\<forall>c cs g gs. enhance_reply env prompt = Choices (c # cs) \<longrightarrow>
            generate_reply env (enhanced_prompt prompt c) = Choices (g # gs) \<longrightarrow>
            entries_of (length (projects w)) (final env uid prompt w) =
              [prompt_entry prompt (length (projects w)),
               assistant_entry (enhanced_notice (enhanced_prompt prompt c)) (length (projects w)),
               assistant_entry start_notice (length (projects w)),
               assistant_entry (if cleaned (raw_content g) = [] then failure_notice
                                else success_notice) (length (projects w))])
     \<and> (\<forall>c cs. enhance_reply env prompt = Choices (c # cs) \<longrightarrow>
            (generate_reply env (enhanced_prompt prompt c) = Rejected
             \<or> generate_reply env (enhanced_prompt prompt c) = Choices []) \<longrightarrow>
            entries_of (length (projects w)) (final env uid prompt w) =
              [prompt_entry prompt (length (projects w)),
               assistant_entry (enhanced_notice (enhanced_prompt prompt c)) (length (projects w)),
               assistant_entry start_notice (length (projects w))])
     \<and> (enhance_reply env prompt = Rejected \<or> enhance_reply env prompt = Choices [] \<longrightarrow>
            entries_of (length (projects w)) (final env uid prompt w) =
              [prompt_entry prompt (length (projects w))])"
proof -
  let ?j = "job_of uid prompt w"
  let ?w = "responded uid prompt u w"
  let ?u = "u\<lparr>totalCreation := totalCreation u + 1, credits := credits u - 5\<rparr>"
  let ?n = "length (projects w)"
  note f = final_debited [OF assms(1)]
  note fresh = entries_of_fresh [OF assms(3)]
  have us: "users ?w (j_userId ?j) = Some ?u"
    by (simp add: responded_simps job_of_simps)
  have p: "j_projectId ?j < length (projects ?w)"
    by (simp add: responded_simps job_of_simps)
  from assms(2) have nf: "\<not> db_fails env Bg_enhanced_entry" "\<not> db_fails env Bg_start_entry"
    by (simp_all add: no_faults_def)
  have full: "entries_of ?n (final env uid prompt w) =
              [prompt_entry prompt ?n,
               assistant_entry (enhanced_notice (enhanced_prompt prompt c)) ?n,
               assistant_entry start_notice ?n,
               assistant_entry (if cleaned (raw_content g) = [] then failure_notice
                                else success_notice) ?n]"
    if e: "enhance_reply env prompt = Choices (c # cs)"
      and g: "generate_reply env (enhanced_prompt prompt c) = Choices (g # gs)"
    for c cs g gs
  proof (cases "cleaned (raw_content g) = []")
    case True
    from e g have "conversation (snd (background env ?j ?w)) = conversation ?w @
           [assistant_entry (enhanced_notice (enhanced_prompt (j_initial_prompt ?j) c))
              (j_projectId ?j),
            assistant_entry start_notice (j_projectId ?j),
            assistant_entry failure_notice (j_projectId ?j)]"
      by (intro background_empty(3) [OF assms(2) us _ _ True]) (simp_all add: job_of_simps)
    with True show ?thesis
      by (simp add: entries_of_def f responded_simps job_of_simps fresh row_defs)
  next
    case False
    from e g have "conversation (snd (background env ?j ?w)) = conversation ?w @
           [assistant_entry (enhanced_notice (enhanced_prompt (j_initial_prompt ?j) c))
              (j_projectId ?j),
            assistant_entry start_notice (j_projectId ?j),
            assistant_entry success_notice (j_projectId ?j)]"
      by (intro background_success(3) [OF assms(2) p _ _ False]) (simp_all add: job_of_simps)
    with False show ?thesis
      by (simp add: entries_of_def f responded_simps job_of_simps fresh row_defs)
  qed
  have gen: "entries_of ?n (final env uid prompt w) =
              [prompt_entry prompt ?n,
               assistant_entry (enhanced_notice (enhanced_prompt prompt c)) ?n,
               assistant_entry start_notice ?n]"
    if e: "enhance_reply env prompt = Choices (c # cs)"
      and g: "generate_reply env (enhanced_prompt prompt c) = Rejected
             \<or> generate_reply env (enhanced_prompt prompt c) = Choices []"
    for c cs
  proof -
    from e g nf obtain err w1 where t: "background_try env ?j ?w = (Inl err, w1)"
      and c: "conversation w1 = conversation ?w @
           [assistant_entry (enhanced_notice (enhanced_prompt (j_initial_prompt ?j) c))
              (j_projectId ?j),
            assistant_entry start_notice (j_projectId ?j)]"
      using background_generate_failed [of env ?j c cs ?w]
      by (auto simp: job_of_simps)
    from background_handler(2) [OF t] c show ?thesis
      by (simp add: entries_of_def f responded_simps job_of_simps fresh row_defs)
  qed
  have enh: "entries_of ?n (final env uid prompt w) = [prompt_entry prompt ?n]"
    if e: "enhance_reply env prompt = Rejected \<or> enhance_reply env prompt = Choices []"
  proof -
    from e obtain err where t: "background_try env ?j ?w =
           (Inl err, ?w\<lparr>ai_requests := ai_requests ?w @ [Enhance (j_initial_prompt ?j)]\<rparr>)"
      using background_enhance_failed [of env ?j ?w]
      by (auto simp: job_of_simps)
    from background_handler(2) [OF t] show ?thesis
      by (simp add: entries_of_def f responded_simps fresh row_defs)
  qed
  from full gen enh show ?thesis by blast
qed


theorem conversation_entries_by_outcome_witness:
  "accepted (demo_env [] (Choices [None]) (Choices [Some (js ''<p>hi</p>'')]))
     alice photographer demo_world \<lparr>credits = 10, totalCreation = 1\<rparr>
   \<and> no_faults (demo_env [] (Choices [None]) (Choices [Some (js ''<p>hi</p>'')]))
   \<and> store_ok demo_world
   \<and> entries_of 1 (final (demo_env [] (Choices [None]) (Choices [Some (js ''<p>hi</p>'')]))
                      alice photographer demo_world) =
        [prompt_entry photographer 1,
         assistant_entry (enhanced_notice photographer) 1,
         assistant_entry start_notice 1,
         assistant_entry success_notice 1]"
proof -
  let ?env = "demo_env [] (Choices [None]) (Choices [Some (js ''<p>hi</p>'')])"
  have a: "accepted ?env alice photographer demo_world \<lparr>credits = 10, totalCreation = 1\<rparr>"
    by (rule accepted_demo) simp
  have n: "no_faults ?env"
    by (simp add: no_faults_def demo_env_def)
  have e: "enhance_reply ?env photographer = Choices (None # [])"
    by (simp add: demo_env_def)
  have g: "generate_reply ?env (enhanced_prompt photographer None)
             = Choices (Some (js ''<p>hi</p>'') # [])"
    by (simp add: demo_env_def)
  have c: "cleaned (raw_content (Some (js ''<p>hi</p>''))) \<noteq> []"
    by (simp add: raw_content_def cleaned_hi) (simp add: js_def)
  have l: "length (projects demo_world) = 1"
    by (simp add: demo_world_def)
  have p: "enhanced_prompt photographer None = photographer"
    by (simp add: enhanced_prompt_def)
  from conversation_entries_by_outcome [OF a n store_ok_demo] e g
  have "entries_of (length (projects demo_world)) (final ?env alice photographer demo_world) =
              [prompt_entry photographer (length (projects demo_world)),
               assistant_entry (enhanced_notice (enhanced_prompt photographer None))
                 (length (projects demo_world)),
               assistant_entry start_notice (length (projects demo_world)),
               assistant_entry (if cleaned (raw_content (Some (js ''<p>hi</p>''))) = []
                                then failure_notice else success_notice)
                 (length (projects demo_world))]"
    by blast
  with a n store_ok_demo show ?thesis
    by (simp add: l p c)
qed

text \<open>
  The claim as stated fails: an empty-output failure leaves 4 entries, not 3 (the start
  notice is written before the code is generated), and a failure of the enhancement call
  leaves 1, not 2 (the handler writes no failure notice).
\<close>

theorem conversation_entries_by_outcome_counterexample:
  "cleaned (raw_content (Some (js ''```html\<newline>```''))) = []
   \<and> entries_of 1 (final (demo_env [] (Choices [None]) (Choices [Some (js ''```html\<newline>```'')]))
                      alice photographer demo_world) =
        [prompt_entry photographer 1,
         assistant_entry (enhanced_notice photographer) 1,
         assistant_entry start_notice 1,
         assistant_entry failure_notice 1]
   \<and> entries_of 1 (final (demo_env [] Rejected Rejected) alice photographer demo_world) =
        [prompt_entry photographer 1]"
  by code_simp




text \<open>
  C7, as amended: when the enhancement reply has a choice whose content is \<open>null\<close>, empty
  or white space only, the original prompt is used unchanged as the enhanced prompt; when
  the two notices (enhanced prompt, start) are then written, the code-generation request
  is sent with it, and when the write of one of them rejects, the background function
  ends in its handler without a code-generation request. When the enhancement call itself
  fails, the background function ends in its handler as well. In both cases that end in
  the handler, no version is created and the 5 credits are refunded unless the handler's
  refund rejects.
\<close>

theorem enhancement_fallback:
  assumes "accepted env uid prompt w u"
  shows "(\<forall>c cs. enhance_reply env prompt = Choices (c # cs) \<longrightarrow>
            (c = None \<or> (\<exists>s. c = Some s \<and> trim s = [])) \<longrightarrow>
              enhanced_prompt prompt c = prompt
              \<and> (\<not> db_fails env Bg_enhanced_entry \<and> \<not> db_fails env Bg_start_entry \<longrightarrow>
                   ai_requests (final env uid prompt w)
                     = ai_requests w @ [Enhance prompt, Generate prompt])
              \<and> (db_fails env Bg_enhanced_entry \<or> db_fails env Bg_start_entry \<longrightarrow>
                   ai_requests (final env uid prompt w) = ai_requests w @ [Enhance prompt]
                   \<and> versions (final env uid prompt w) = versions w
                   \<and> balance uid (final env uid prompt w)
                       = Some (if db_fails env Bg_catch_refund then credits u - 5
                               else credits u)))
     \<and> (enhance_reply env prompt = Rejected \<longrightarrow>
            ai_requests (final env uid prompt w) = ai_requests w @ [Enhance prompt]
            \<and> versions (final env uid prompt w) = versions w
            \<and> balance uid (final env uid prompt w)
                = Some (if db_fails env Bg_catch_refund then credits u - 5 else credits u))"
proof -
  let ?j = "job_of uid prompt w"
  let ?w = "responded uid prompt u w"
  note f = final_debited [OF assms]
  have blank: "enhanced_prompt prompt c = prompt"
    if "c = None \<or> (\<exists>s. c = Some s \<and> trim s = [])" for c
    using that by (auto simp: enhanced_prompt_def)
  have proceeds: "ai_requests (final env uid prompt w)
                    = ai_requests w @ [Enhance prompt, Generate prompt]"
    if e: "enhance_reply env prompt = Choices (c # cs)"
      and c: "c = None \<or> (\<exists>s. c = Some s \<and> trim s = [])"
      and n: "\<not> db_fails env Bg_enhanced_entry" "\<not> db_fails env Bg_start_entry"
    for c cs
  proof -
    from e have "enhance_reply env (j_initial_prompt ?j) = Choices (c # cs)"
      by (simp add: job_of_simps)
    from background_requests [OF this n, of ?w] blank [OF c] show ?thesis
      by (simp add: f job_of_simps responded_simps)
  qed
  have stopped: "ai_requests (final env uid prompt w) = ai_requests w @ [Enhance prompt]
            \<and> versions (final env uid prompt w) = versions w
            \<and> balance uid (final env uid prompt w)
                = Some (if db_fails env Bg_catch_refund then credits u - 5 else credits u)"
    if t: "background_try env ?j ?w = (Inl err, w1)"
      and w1: "ai_requests w1 = ai_requests ?w @ [Enhance (j_initial_prompt ?j)]"
        "versions w1 = versions ?w" "users w1 = users ?w"
    for err w1
    using background_handler [OF t] w1
    by (simp add: f balance_def responded_simps job_of_simps refund_def)
  have notice: "ai_requests (final env uid prompt w) = ai_requests w @ [Enhance prompt]
            \<and> versions (final env uid prompt w) = versions w
            \<and> balance uid (final env uid prompt w)
                = Some (if db_fails env Bg_catch_refund then credits u - 5 else credits u)"
    if e: "enhance_reply env prompt = Choices (c # cs)"
      and n: "db_fails env Bg_enhanced_entry \<or> db_fails env Bg_start_entry"
    for c cs
  proof -
    from e have "enhance_reply env (j_initial_prompt ?j) = Choices (c # cs)"
      by (simp add: job_of_simps)
    from background_notice_failed [OF this n, of ?w]
    obtain err w1 where "background_try env ?j ?w = (Inl err, w1)"
      and "ai_requests w1 = ai_requests ?w @ [Enhance (j_initial_prompt ?j)]"
      and "versions w1 = versions ?w" and "users w1 = users ?w"
      by blast
    then show ?thesis by (rule stopped)
  qed
  have rejected: "ai_requests (final env uid prompt w) = ai_requests w @ [Enhance prompt]
            \<and> versions (final env uid prompt w) = versions w
            \<and> balance uid (final env uid prompt w)
                = Some (if db_fails env Bg_catch_refund then credits u - 5 else credits u)"
    if e: "enhance_reply env prompt = Rejected"
  proof -
    from e obtain err where t: "background_try env ?j ?w =
           (Inl err, ?w\<lparr>ai_requests := ai_requests ?w @ [Enhance (j_initial_prompt ?j)]\<rparr>)"
      using background_enhance_failed [of env ?j ?w]
      by (auto simp: job_of_simps)
    show ?thesis
      by (rule stopped [OF t]) simp_all
  qed
  from blank proceeds notice rejected show ?thesis by blast
qed

theorem enhancement_fallback_witness:
  "accepted (demo_env [] (Choices [Some (js ''  '')]) (Choices [Some (js ''<p>hi</p>'')]))
     alice photographer demo_world \<lparr>credits = 10, totalCreation = 1\<rparr>
   \<and> trim (js ''  '') = []
   \<and> enhanced_prompt photographer (Some (js ''  '')) = photographer
   \<and> ai_requests (final (demo_env [] (Choices [Some (js ''  '')])
                           (Choices [Some (js ''<p>hi</p>'')]))
                     alice photographer demo_world)
       = [Enhance photographer, Generate photographer]
   \<and> accepted (demo_env [Bg_start_entry] (Choices [Some (js ''  '')])
                 (Choices [Some (js ''<p>hi</p>'')]))
     alice photographer demo_world \<lparr>credits = 10, totalCreation = 1\<rparr>
   \<and> ai_requests (final (demo_env [Bg_start_entry] (Choices [Some (js ''  '')])
                           (Choices [Some (js ''<p>hi</p>'')]))
                     alice photographer demo_world) = [Enhance photographer]
   \<and> accepted (demo_env [] Rejected (Choices [Some (js ''<p>hi</p>'')]))
     alice photographer demo_world \<lparr>credits = 10, totalCreation = 1\<rparr>
   \<and> ai_requests (final (demo_env [] Rejected (Choices [Some (js ''<p>hi</p>'')]))
                     alice photographer demo_world) = [Enhance photographer]
   \<and> balance alice (final (demo_env [] Rejected (Choices [Some (js ''<p>hi</p>'')]))
                     alice photographer demo_world) = Some 10"
proof -
  let ?blank = "demo_env [] (Choices [Some (js ''  '')]) (Choices [Some (js ''<p>hi</p>'')])"
  let ?lost = "demo_env [Bg_start_entry] (Choices [Some (js ''  '')])
                 (Choices [Some (js ''<p>hi</p>'')])"
  let ?fails = "demo_env [] Rejected (Choices [Some (js ''<p>hi</p>'')])"
  have a: "accepted ?blank alice photographer demo_world \<lparr>credits = 10, totalCreation = 1\<rparr>"
    by (rule accepted_demo) simp
  have a'': "accepted ?lost alice photographer demo_world \<lparr>credits = 10, totalCreation = 1\<rparr>"
    by (rule accepted_demo) simp
  have a': "accepted ?fails alice photographer demo_world \<lparr>credits = 10, totalCreation = 1\<rparr>"
    by (rule accepted_demo) simp
  have t: "trim (js ''  '') = []"
    by (simp add: trim_def js_def is_space_def)
  have e: "enhance_reply ?blank photographer = Choices (Some (js ''  '') # [])"
    "\<not> db_fails ?blank Bg_enhanced_entry" "\<not> db_fails ?blank Bg_start_entry"
    by (simp_all add: demo_env_def)
  have e'': "enhance_reply ?lost photographer = Choices (Some (js ''  '') # [])"
    "db_fails ?lost Bg_start_entry"
    by (simp_all add: demo_env_def)
  have e': "enhance_reply ?fails photographer = Rejected" "\<not> db_fails ?fails Bg_catch_refund"
    by (simp_all add: demo_env_def)
  have l: "ai_requests demo_world = []"
    by (simp add: demo_world_def)
  from enhancement_fallback [OF a] e t
  have 1: "enhanced_prompt photographer (Some (js ''  '')) = photographer
       \<and> ai_requests (final ?blank alice photographer demo_world)
           = ai_requests demo_world @ [Enhance photographer, Generate photographer]"
    by blast
  from enhancement_fallback [OF a''] e'' t
  have 3: "ai_requests (final ?lost alice photographer demo_world)
             = ai_requests demo_world @ [Enhance photographer]"
    by blast
  from enhancement_fallback [OF a'] e'
  have 2: "ai_requests (final ?fails alice photographer demo_world)
             = ai_requests demo_world @ [Enhance photographer]
       \<and> balance alice (final ?fails alice photographer demo_world)
             = Some (credits \<lparr>credits = 10, totalCreation = 1\<rparr>)"
    by simp
  from a a' a'' t 1 2 3 show ?thesis
    by (simp add: l)
qed

text \<open>
  The claim as stated fails for a failure of the enhancement call: it is not replaced by the
  original prompt. The only request sent is the enhancement request, no version is created
  and the 5 credits are refunded.
\<close>

theorem enhancement_fallback_counterexample:
  "enhance_reply (demo_env [] Rejected (Choices [Some (js ''<p>hi</p>'')])) photographer
     = Rejected
   \<and> ai_requests (final (demo_env [] Rejected (Choices [Some (js ''<p>hi</p>'')]))
                     alice photographer demo_world) = [Enhance photographer]
   \<and> versions (final (demo_env [] Rejected (Choices [Some (js ''<p>hi</p>'')]))
                  alice photographer demo_world) = versions demo_world
   \<and> balance alice demo_world = Some 10
   \<and> balance alice (final (demo_env [] Rejected (Choices [Some (js ''<p>hi</p>'')]))
                       alice photographer demo_world) = Some 10"
  by code_simp

end
